theory Spec2Isabelle
  imports Complex_Main
begin

section \<open>Python values, exceptions and text\<close>

text \<open>
  The handler of \<^verbatim>\<open>cambridgeavr/protocol.py\<close> is embedded function by function.
  Python's exceptions are values: a pure function returns \<open>error + 'a\<close>, a method that
  mutates the handler returns an \<open>outcome\<close> (defined with the handler below), which keeps
  the handler as the exception left it.

  Text is \<open>string\<close>. The wire protocol is ASCII, and \<open>data_received\<close> below takes the
  chunk as \<^verbatim>\<open>data.decode()\<close> returned it; characters beyond ASCII are outside the model.
\<close>

datatype error = ValueError | TypeError | OverflowError | AttributeError

text \<open>The dynamically typed arguments the public functions are called with.\<close>

datatype pyval = PyInt int | PyStr string | PyNone

definition CR :: char where
  "CR = CHR 0x0D"

subsection \<open>\<^verbatim>\<open>str.startswith\<close>, \<^verbatim>\<open>str.split\<close>, \<^verbatim>\<open>str(int)\<close>\<close>

definition startswith :: "string \<Rightarrow> string \<Rightarrow> bool" where
  "startswith s p \<longleftrightarrow> take (length p) s = p"

text \<open>\<^verbatim>\<open>s.split(sep)\<close> for a one-character separator: the segments between separators, the
  last one being what follows the last separator (empty when \<open>s\<close> ends with it).\<close>

fun py_split :: "char \<Rightarrow> string \<Rightarrow> string list" where
  "py_split sep [] = [[]]"
| "py_split sep (c # cs) =
     (if c = sep then [] # py_split sep cs
      else (case py_split sep cs of
              seg # segs \<Rightarrow> (c # seg) # segs
            | [] \<Rightarrow> [[c]]))"

fun digits :: "nat \<Rightarrow> string" where
  "digits n =
     (if n < 10 then [char_of (48 + n)]
      else digits (n div 10) @ [char_of (48 + n mod 10)])"

declare digits.simps [simp del]

definition str :: "int \<Rightarrow> string" where
  "str i = (if i < 0 then CHR ''-'' # digits (nat (- i)) else digits (nat i))"

subsection \<open>\<^verbatim>\<open>int(str)\<close>\<close>

text \<open>
  \<^verbatim>\<open>int(s)\<close> on ASCII text: whitespace is stripped at both ends, one sign may follow, then
  decimal digits, where single underscores may stand between digits. Anything else is
  the \<^verbatim>\<open>ValueError\<close>, here \<open>None\<close>. (The interpreter's optional limit on the number of
  digits of a literal is a run-time setting and not part of the model.)
\<close>

definition py_isspace :: "char \<Rightarrow> bool" where
  "py_isspace c \<longleftrightarrow> c \<in> set [CHR '' '', CHR 0x09, CHR 0x0A, CHR 0x0B, CHR 0x0C, CHR 0x0D]"

definition strip :: "string \<Rightarrow> string" where
  "strip s = rev (dropWhile py_isspace (rev (dropWhile py_isspace s)))"

definition is_digit :: "char \<Rightarrow> bool" where
  "is_digit c \<longleftrightarrow> (48::nat) \<le> of_char c \<and> of_char c \<le> (57::nat)"

definition digit_value :: "char \<Rightarrow> int" where
  "digit_value c = int (of_char c) - 48"

text \<open>The digits after the sign; \<open>prev\<close> tells that the previous character was an underscore.\<close>

fun scan_digits :: "string \<Rightarrow> int \<Rightarrow> bool \<Rightarrow> int option" where
  "scan_digits [] acc prev = (if prev then None else Some acc)"
| "scan_digits (c # cs) acc prev =
     (if c = CHR ''_'' then (if prev then None else scan_digits cs acc True)
      else if is_digit c then scan_digits cs (10 * acc + digit_value c) False
      else None)"

definition py_int :: "string \<Rightarrow> int option" where
  "py_int s =
     (let t = strip s;
          negative = (case t of c # _ \<Rightarrow> c = CHR ''-'' | [] \<Rightarrow> False);
          u = (case t of c # cs \<Rightarrow> if c = CHR ''+'' \<or> c = CHR ''-'' then cs else t | [] \<Rightarrow> t)
      in case u of
           [] \<Rightarrow> None
         | c # _ \<Rightarrow>
             if is_digit c
             then map_option (\<lambda>n. if negative then - n else n) (scan_digits u 0 False)
             else None)"

section \<open>Floating point\<close>

text \<open>
  Python's \<^verbatim>\<open>float\<close> is IEEE 754 binary64, and each of \<^verbatim>\<open>+\<close>, \<^verbatim>\<open>/\<close>, \<^verbatim>\<open>*\<close> returns the
  exact result rounded to the nearest double, ties to the even significand. A finite
  double is the rational it denotes. \<open>float_round\<close> rounds an exact result to 53
  significant bits and overflows to infinity beyond the largest double. Gradual underflow
  is not modelled: the nonzero results of the two conversion functions are at least
  \<open>1/100\<close> in magnitude.
\<close>

datatype pyfloat = Finite rat | Infinity

function bit_length :: "int \<Rightarrow> int" where
  "bit_length n = (if n \<le> 0 then 0 else 1 + bit_length (n div 2))"
  by pat_completeness auto
termination
  by (relation "measure nat") auto

declare bit_length.simps [simp del]

definition pow2 :: "int \<Rightarrow> rat" where
  "pow2 e = (if 0 \<le> e then 2 ^ nat e else 1 / 2 ^ nat (- e))"

text \<open>\<^verbatim>\<open>round(x)\<close> of a float, and the rounding of a significand: half to even.
  \<open>round_from x f\<close> rounds \<open>x\<close> given its floor \<open>f\<close>.\<close>

definition round_from :: "rat \<Rightarrow> int \<Rightarrow> int" where
  "round_from x f =
     (if x - of_int f < 1 / 2 then f
      else if 1 / 2 < x - of_int f then f + 1
      else if even f then f else f + 1)"

definition round_half_even :: "rat \<Rightarrow> int" where
  "round_half_even x = round_from x \<lfloor>x\<rfloor>"

text \<open>The exponent \<open>e\<close> of the last significand bit: \<open>2^52 \<le> a / 2^e < 2^53\<close> for \<open>a > 0\<close>.\<close>

definition float_exponent :: "rat \<Rightarrow> int" where
  "float_exponent a =
     (if 1 \<le> a then bit_length \<lfloor>a\<rfloor> - 1 else - bit_length (\<lceil>1 / a\<rceil> - 1)) - 52"

text \<open>The double of sign \<open>s\<close>, significand \<open>m\<close> and exponent \<open>e\<close>; the largest double is
  \<open>(2^53 - 1) * 2^971\<close>.\<close>

definition float_pack :: "rat \<Rightarrow> int \<Rightarrow> int \<Rightarrow> pyfloat" where
  "float_pack s m e =
     (if 971 < e \<or> (e = 971 \<and> m = 2 ^ 53) then Infinity
      else Finite (s * of_int m * pow2 e))"

definition float_round_at :: "rat \<Rightarrow> int \<Rightarrow> pyfloat" where
  "float_round_at q e = float_pack (sgn q) (round_half_even (\<bar>q\<bar> / pow2 e)) e"

definition float_round :: "rat \<Rightarrow> pyfloat" where
  "float_round q = (if q = 0 then Finite 0 else float_round_at q (float_exponent \<bar>q\<bar>))"

text \<open>Float arithmetic with a finite, nonzero right operand (the constants 90 and 100).\<close>

definition float_add :: "pyfloat \<Rightarrow> rat \<Rightarrow> pyfloat" where
  "float_add x c = (case x of Infinity \<Rightarrow> Infinity | Finite a \<Rightarrow> float_round (a + c))"

definition float_div :: "pyfloat \<Rightarrow> rat \<Rightarrow> pyfloat" where
  "float_div x c = (case x of Infinity \<Rightarrow> Infinity | Finite a \<Rightarrow> float_round (a / c))"

definition float_mul :: "pyfloat \<Rightarrow> rat \<Rightarrow> pyfloat" where
  "float_mul x c = (case x of Infinity \<Rightarrow> Infinity | Finite a \<Rightarrow> float_round (a * c))"

text \<open>\<^verbatim>\<open>round(x)\<close>: \<^verbatim>\<open>OverflowError\<close> on an infinity.\<close>

definition py_round :: "pyfloat \<Rightarrow> error + int" where
  "py_round x = (case x of Infinity \<Rightarrow> Inl OverflowError | Finite q \<Rightarrow> Inr (round_half_even q))"

text \<open>\<^verbatim>\<open>float(n)\<close> of an int, as the mixed arithmetic converts it: \<^verbatim>\<open>OverflowError\<close> when
  \<open>n\<close> is too large.\<close>

definition int_to_float :: "int \<Rightarrow> error + pyfloat" where
  "int_to_float n =
     (case float_round (of_int n) of Infinity \<Rightarrow> Inl OverflowError | Finite d \<Rightarrow> Inr (Finite d))"

text \<open>\<^verbatim>\<open>a / b\<close> of two ints, \<open>b\<close> not zero: the correctly rounded quotient, or
  \<^verbatim>\<open>OverflowError\<close>.\<close>

definition int_true_divide :: "int \<Rightarrow> int \<Rightarrow> error + pyfloat" where
  "int_true_divide a b =
     (case float_round (of_int a / of_int b) of
        Infinity \<Rightarrow> Inl OverflowError
      | Finite d \<Rightarrow> Inr (Finite d))"

section \<open>Volume and attenuation conversion\<close>

text \<open>
  \<^verbatim>\<open>attenuation_to_volume(value)\<close> is
  \<^verbatim>\<open>round((90.00 + int(value)) / 90 * 100)\<close>, and 0 when a \<^verbatim>\<open>ValueError\<close> is raised;
  \<^verbatim>\<open>int(value)\<close> raises it on text that is no integer literal, and \<^verbatim>\<open>TypeError\<close>, which
  is not caught, on \<^verbatim>\<open>None\<close>.
\<close>

text \<open>The arithmetic \<^verbatim>\<open>round((90.00 + n) / 90 * 100)\<close> on the int \<open>n\<close> that \<^verbatim>\<open>int(value)\<close>
  returned.\<close>

definition attenuation_of_int :: "int \<Rightarrow> error + int" where
  "attenuation_of_int n =
     (case int_to_float n of
        Inl e \<Rightarrow> Inl e
      | Inr d \<Rightarrow> py_round (float_mul (float_div (float_add d 90) 90) 100))"

definition attenuation_to_volume :: "pyval \<Rightarrow> error + int" where
  "attenuation_to_volume v =
     (case v of
        PyInt n \<Rightarrow> attenuation_of_int n
      | PyStr s \<Rightarrow> (case py_int s of None \<Rightarrow> Inr 0 | Some n \<Rightarrow> attenuation_of_int n)
      | PyNone \<Rightarrow> Inl TypeError)"

text \<open>
  \<^verbatim>\<open>volume_to_attenuation(value)\<close> is \<^verbatim>\<open>round((value / 100) * 90) - 90\<close>, and \<open>-90\<close> when
  a \<^verbatim>\<open>ValueError\<close> is raised. There is no \<^verbatim>\<open>int(value)\<close> here: \<^verbatim>\<open>value / 100\<close> on text
  or \<^verbatim>\<open>None\<close> raises \<^verbatim>\<open>TypeError\<close>, which is not caught. On an int nothing raises
  \<^verbatim>\<open>ValueError\<close>.
\<close>

definition volume_to_attenuation :: "pyval \<Rightarrow> error + int" where
  "volume_to_attenuation v =
     (case v of
        PyInt n \<Rightarrow>
          (case int_true_divide n 100 of
             Inl e \<Rightarrow> Inl e
           | Inr d \<Rightarrow> (case py_round (float_mul d 90) of
                         Inl e \<Rightarrow> Inl e
                       | Inr r \<Rightarrow> Inr (r - 90)))
      | PyStr s \<Rightarrow> Inl TypeError
      | PyNone \<Rightarrow> Inl TypeError)"

section \<open>Catalog\<close>

definition CMD_VOLUME_UP :: string where
  "CMD_VOLUME_UP = ''1,02''"

definition CMD_VOLUME_DOWN :: string where
  "CMD_VOLUME_DOWN = ''1,03''"

text \<open>The attribute constants, the keys of \<^verbatim>\<open>LOOKUP\<close>; \<open>wire\<close> is the string each one is
  bound to.\<close>

datatype attr =
    ATTR_POWER_STATE | ATTR_MUTE_STATE | ATTR_VOLUME_UP | ATTR_VOLUME_DOWN
  | ATTR_SELECTED_INPUT | ATTR_AUDIO_SOURCE | ATTR_MYSTERY | ATTR_SW_VERSION
  | ATTR_PROTOCOL_VERSION

fun wire :: "attr \<Rightarrow> string" where
  "wire ATTR_POWER_STATE = ''#6,01''"
| "wire ATTR_MUTE_STATE = ''#6,11''"
| "wire ATTR_VOLUME_UP = ''#6,02''"
| "wire ATTR_VOLUME_DOWN = ''#6,03''"
| "wire ATTR_SELECTED_INPUT = ''#7,01''"
| "wire ATTR_AUDIO_SOURCE = ''#7,04''"
| "wire ATTR_MYSTERY = ''#7,05''"
| "wire ATTR_SW_VERSION = ''#10,01''"
| "wire ATTR_PROTOCOL_VERSION = ''#10,02''"

text \<open>The keys of \<^verbatim>\<open>LOOKUP\<close> in the order the dictionary declares and iterates them.\<close>

definition LOOKUP_keys :: "attr list" where
  "LOOKUP_keys =
     [ATTR_POWER_STATE, ATTR_MUTE_STATE, ATTR_VOLUME_UP, ATTR_VOLUME_DOWN,
      ATTR_SELECTED_INPUT, ATTR_AUDIO_SOURCE, ATTR_MYSTERY, ATTR_SW_VERSION,
      ATTR_PROTOCOL_VERSION]"

text \<open>\<^verbatim>\<open>LOOKUP[key]["name"]\<close>, \<^verbatim>\<open>LOOKUP[key]["description"]\<close> and the value labels that
  follow them in the entry.\<close>

fun LOOKUP_name :: "attr \<Rightarrow> string" where
  "LOOKUP_name ATTR_POWER_STATE = ''power_state''"
| "LOOKUP_name ATTR_MUTE_STATE = ''mute_state''"
| "LOOKUP_name ATTR_VOLUME_UP = ''volume''"
| "LOOKUP_name ATTR_VOLUME_DOWN = ''volume''"
| "LOOKUP_name ATTR_SELECTED_INPUT = ''selected_input''"
| "LOOKUP_name ATTR_AUDIO_SOURCE = ''audio_source''"
| "LOOKUP_name ATTR_MYSTERY = ''mystery''"
| "LOOKUP_name ATTR_SW_VERSION = ''software_version''"
| "LOOKUP_name ATTR_PROTOCOL_VERSION = ''protocol_version''"

fun LOOKUP_description :: "attr \<Rightarrow> string" where
  "LOOKUP_description ATTR_POWER_STATE = ''Power State''"
| "LOOKUP_description ATTR_MUTE_STATE = ''Mute State''"
| "LOOKUP_description ATTR_VOLUME_UP = ''Volume (Up)''"
| "LOOKUP_description ATTR_VOLUME_DOWN = ''Volume (Down)''"
| "LOOKUP_description ATTR_SELECTED_INPUT = ''Selected Input''"
| "LOOKUP_description ATTR_AUDIO_SOURCE = ''Audio Source''"
| "LOOKUP_description ATTR_MYSTERY = ''N/A''"
| "LOOKUP_description ATTR_SW_VERSION = ''Main Software Version''"
| "LOOKUP_description ATTR_PROTOCOL_VERSION = ''Protocol Version''"

fun LOOKUP_labels :: "attr \<Rightarrow> (string \<times> string) list" where
  "LOOKUP_labels ATTR_POWER_STATE = [(''0'', ''Off''), (''1'', ''On'')]"
| "LOOKUP_labels ATTR_MUTE_STATE = [(''00'', ''Off''), (''01'', ''On'')]"
| "LOOKUP_labels ATTR_SELECTED_INPUT =
     [(''01'', ''BD/DVD''), (''02'', ''Video 1''), (''03'', ''Video 2''), (''04'', ''CD/AUX''),
      (''05'', ''Tape/MD/CDR''), (''O6'', ''Tuner''), (''O7'', ''Video 3''),
      (''08'', ''Direct In''), (''09'', ''TV ARC'')]"
| "LOOKUP_labels ATTR_AUDIO_SOURCE = [(''00'', ''Analog''), (''01'', ''Digital''), (''02'', ''HDMI'')]"
| "LOOKUP_labels key = []"

text \<open>\<^verbatim>\<open>LOOKUP[key].get(value)\<close>: \<open>None\<close> where \<^verbatim>\<open>value in LOOKUP[key]\<close> is false.\<close>

definition LOOKUP_get :: "attr \<Rightarrow> string \<Rightarrow> string option" where
  "LOOKUP_get key v =
     (if v = ''name'' then Some (LOOKUP_name key)
      else if v = ''description'' then Some (LOOKUP_description key)
      else map_of (LOOKUP_labels key) v)"

section \<open>The handler\<close>

text \<open>
  The transport and the event loop are the handler's collaborators. Of the transport the
  model keeps what was written to it, in order, and whether reading is paused; of the
  loop, the callbacks queued by \<^verbatim>\<open>call_soon\<close> and the timers armed by \<^verbatim>\<open>call_later\<close>
  (delay in seconds, callback), both in the order of the calls. Either may be absent:
  \<^verbatim>\<open>loop\<close> defaults to \<^verbatim>\<open>None\<close> in the constructor and \<^verbatim>\<open>transport\<close> is \<^verbatim>\<open>None\<close> before
  the connection is made and after it is lost; a method call on \<^verbatim>\<open>None\<close> raises
  \<^verbatim>\<open>AttributeError\<close>.
\<close>

record transport_state =
  written :: "string list"
  reading_paused :: bool
  write_buffer_limits :: "int \<times> int"

datatype callback =
    PoweronCallback
  | RefreshVolume int
  | UpdateCallback string
  | ConnectionLostCallback

record event_loop =
  ready :: "callback list"
  scheduled :: "(int \<times> callback) list"

datatype level = DEBUG | WARNING | ERROR

text \<open>
  The fields of \<^verbatim>\<open>AVR.__init__\<close>. \<open>log_lines\<close> is what was handed to \<^verbatim>\<open>self.log\<close>: level,
  format and arguments. \<open>update_callback\<close> and \<open>connection_lost_callback\<close> tell whether
  the callback was supplied. \<open>attrs\<close> holds the attributes bound by name with
  \<^verbatim>\<open>setattr\<close>, one for each name of \<^verbatim>\<open>LOOKUP\<close>; only those names are ever read.
\<close>

record avr =
  loop :: "event_loop option"
  log_lines :: "(level \<times> string \<times> pyval list) list"
  connection_lost_callback :: bool
  update_callback :: bool
  buffer :: string
  input_names :: "(int \<times> string) list"
  input_numbers :: "(string \<times> int) list"
  poweron_refresh_successful :: bool
  volume_update_state :: int
  volume_update_success :: bool
  volume_target :: "int option"
  transport :: "transport_state option"
  attrs :: "string \<Rightarrow> string"

definition init :: "bool \<Rightarrow> event_loop option \<Rightarrow> bool \<Rightarrow> avr" where
  "init update_cb lp lost_cb =
     \<lparr> loop = lp, log_lines = [], connection_lost_callback = lost_cb,
       update_callback = update_cb, buffer = '''', input_names = [], input_numbers = [],
       poweron_refresh_successful = False, volume_update_state = 0,
       volume_update_success = False, volume_target = None, transport = None,
       attrs = fold (\<lambda>key a. a(''_'' @ LOOKUP_name key := '''')) LOOKUP_keys (\<lambda>_. '''') \<rparr>"

text \<open>The result of a method: the handler after it returned, or the exception and the
  handler as it was when the exception was raised.\<close>

datatype outcome = Done avr | Raised error avr

definition and_then :: "outcome \<Rightarrow> (avr \<Rightarrow> outcome) \<Rightarrow> outcome" where
  "and_then r f = (case r of Done s \<Rightarrow> f s | Raised e s \<Rightarrow> Raised e s)"

definition log_to :: "level \<Rightarrow> avr \<Rightarrow> string \<Rightarrow> pyval list \<Rightarrow> avr" where
  "log_to lvl s fmt args = s\<lparr>log_lines := log_lines s @ [(lvl, fmt, args)]\<rparr>"

definition call_soon :: "avr \<Rightarrow> callback \<Rightarrow> outcome" where
  "call_soon s cb =
     (case loop s of
        None \<Rightarrow> Raised AttributeError s
      | Some l \<Rightarrow> Done (s\<lparr>loop := Some (l\<lparr>ready := ready l @ [cb]\<rparr>)\<rparr>))"

definition call_later :: "avr \<Rightarrow> int \<Rightarrow> callback \<Rightarrow> outcome" where
  "call_later s delay cb =
     (case loop s of
        None \<Rightarrow> Raised AttributeError s
      | Some l \<Rightarrow> Done (s\<lparr>loop := Some (l\<lparr>scheduled := scheduled l @ [(delay, cb)]\<rparr>)\<rparr>))"

subsection \<open>\<^verbatim>\<open>send_command\<close>\<close>

definition wire_command :: "string \<Rightarrow> string \<Rightarrow> string" where
  "wire_command command data = ''#'' @ command @ '','' @ data @ [CR]"

text \<open>The write is inside \<^verbatim>\<open>try\<close>: without a transport the command is dropped with a
  warning. A write to a transport that is there is taken to succeed.\<close>

definition send_command :: "avr \<Rightarrow> string \<Rightarrow> string \<Rightarrow> avr" where
  "send_command s command data =
     (case transport s of
        Some t \<Rightarrow>
          (log_to DEBUG s ''> %s'' [PyStr (wire_command command data)])
            \<lparr>transport := Some (t\<lparr>written := written t @ [wire_command command data]\<rparr>)\<rparr>
      | None \<Rightarrow>
          log_to WARNING (log_to DEBUG s ''> %s'' [PyStr (wire_command command data)])
            ''No transport found, unable to send command'' [])"

subsection \<open>\<^verbatim>\<open>_refresh_volume\<close> and \<^verbatim>\<open>_poweron_callback\<close>\<close>

text \<open>The three consecutive \<^verbatim>\<open>if\<close> blocks of \<^verbatim>\<open>_refresh_volume\<close>, marked IDLE, REQUESTED
  and COMPLETED in the source.\<close>

definition refresh_idle :: "avr \<Rightarrow> avr" where
  "refresh_idle s =
     (if volume_update_state s = 0
      then (log_to DEBUG s ''Start Refresh Volume'' [])\<lparr>volume_update_state := 1\<rparr>
      else s)"

definition refresh_requested :: "avr \<Rightarrow> int \<Rightarrow> outcome" where
  "refresh_requested s tries =
     (if volume_update_state s = 1
      then if tries < 10
           then call_later
                  (send_command (log_to DEBUG s ''Refresh Volume Try %s'' [PyInt (tries + 1)])
                     CMD_VOLUME_DOWN '''')
                  2 (RefreshVolume (tries + 1))
           else Done (log_to WARNING s ''Refresh Volume timed out!'' [])
      else Done s)"

definition refresh_completed :: "avr \<Rightarrow> avr" where
  "refresh_completed s =
     (if volume_update_state s = 2
      then (log_to DEBUG s ''Refresh Volume successful.'' [])\<lparr>volume_update_state := 0\<rparr>
      else s)"

definition refresh_volume :: "avr \<Rightarrow> int \<Rightarrow> outcome" where
  "refresh_volume s tries =
     and_then (refresh_requested (refresh_idle s) tries) (\<lambda>s'. Done (refresh_completed s'))"

definition poweron_callback :: "avr \<Rightarrow> outcome" where
  "poweron_callback s =
     and_then (refresh_volume (log_to DEBUG s ''AVR Powered on'' []) 0)
       (\<lambda>s'. Done (s'\<lparr>poweron_refresh_successful := True\<rparr>))"

subsection \<open>Attribute access\<close>

text \<open>The name \<^verbatim>\<open>f"_{LOOKUP[attr]['name']}"\<close> is never empty, so the \<^verbatim>\<open>else\<close> branches of
  the two accessors, which log an error, are not reached.\<close>

definition get_attribute_value :: "avr \<Rightarrow> attr \<Rightarrow> string" where
  "get_attribute_value s attr = attrs s (''_'' @ LOOKUP_name attr)"

definition set_attribute_value :: "avr \<Rightarrow> attr \<Rightarrow> string \<Rightarrow> avr" where
  "set_attribute_value s attr v = s\<lparr>attrs := (attrs s)(''_'' @ LOOKUP_name attr := v)\<rparr>"

definition get_integer :: "avr \<Rightarrow> attr \<Rightarrow> int" where
  "get_integer s attr =
     (case py_int (get_attribute_value s attr) of Some n \<Rightarrow> n | None \<Rightarrow> 0)"

definition get_boolean :: "avr \<Rightarrow> attr \<Rightarrow> bool" where
  "get_boolean s attr =
     (case py_int (get_attribute_value s attr) of Some n \<Rightarrow> n \<noteq> 0 | None \<Rightarrow> False)"

definition power :: "avr \<Rightarrow> bool" where
  "power s = get_boolean s ATTR_POWER_STATE"

definition mute :: "avr \<Rightarrow> bool" where
  "mute s = get_boolean s ATTR_MUTE_STATE"

definition input_number :: "avr \<Rightarrow> int" where
  "input_number s = get_integer s ATTR_SELECTED_INPUT"

definition attenuation :: "avr \<Rightarrow> int" where
  "attenuation s =
     (case py_int (get_attribute_value s ATTR_VOLUME_UP) of Some n \<Rightarrow> n | None \<Rightarrow> - 90)"

definition volume :: "avr \<Rightarrow> error + int" where
  "volume s = attenuation_to_volume (PyInt (attenuation s))"

text \<open>The \<^verbatim>\<open>attenuation\<close> setter.\<close>

definition set_attenuation :: "avr \<Rightarrow> pyval \<Rightarrow> avr" where
  "set_attenuation s v =
     (case v of
        PyInt t \<Rightarrow>
          if - 90 \<le> t \<and> t \<le> 0 \<and> t \<noteq> get_integer s ATTR_VOLUME_UP
          then send_command
                 ((log_to DEBUG s (''Setting attenuation to '' @ str t) [])\<lparr>volume_target := Some t\<rparr>)
                 (if t > get_integer s ATTR_VOLUME_UP then CMD_VOLUME_UP else CMD_VOLUME_DOWN) ''''
          else s
      | _ \<Rightarrow> s)"

text \<open>The \<^verbatim>\<open>volume\<close> setter.\<close>

definition set_volume :: "avr \<Rightarrow> pyval \<Rightarrow> outcome" where
  "set_volume s v =
     (case v of
        PyInt n \<Rightarrow>
          if 0 \<le> n \<and> n \<le> 100
          then (case volume_to_attenuation (PyInt n) of
                  Inl e \<Rightarrow> Raised e s
                | Inr a \<Rightarrow> Done (set_attenuation s (PyInt a)))
          else Done s
      | _ \<Rightarrow> Done s)"

subsection \<open>\<^verbatim>\<open>_parse_message\<close>\<close>

text \<open>The \<^verbatim>\<open>for key in LOOKUP\<close> loop stops at the first key the message starts with.\<close>

definition matching_key :: "string \<Rightarrow> attr option" where
  "matching_key data = find (\<lambda>key. startswith data (wire key)) LOOKUP_keys"

text \<open>\<^verbatim>\<open>data[len(key) + 1:]\<close>\<close>

definition value_of :: "attr \<Rightarrow> string \<Rightarrow> string" where
  "value_of key data = drop (length (wire key) + 1) data"

definition change_indicator :: "avr \<Rightarrow> attr \<Rightarrow> string \<Rightarrow> string" where
  "change_indicator s key data =
     (if get_attribute_value s key \<noteq> value_of key data then ''New Value'' else ''Unchanged'')"

text \<open>The body of the loop at the matching key: the debug line, then the store.\<close>

definition store_value :: "avr \<Rightarrow> attr \<Rightarrow> string \<Rightarrow> avr" where
  "store_value s key data =
     set_attribute_value
       (case LOOKUP_get key (value_of key data) of
          Some label \<Rightarrow>
            log_to DEBUG s ''%s: %s (%s) -> %s (%s)''
              [PyStr (change_indicator s key data), PyStr (LOOKUP_description key),
               PyStr (wire key), PyStr label, PyStr (value_of key data)]
        | None \<Rightarrow>
            log_to DEBUG s ''%s: %s (%s) -> %s''
              [PyStr (change_indicator s key data), PyStr (LOOKUP_description key),
               PyStr (wire key), PyStr (value_of key data)])
       key (value_of key data)"

text \<open>The loop: the handler after it, \<^verbatim>\<open>recognized\<close> and \<^verbatim>\<open>newdata\<close>.\<close>

definition lookup_loop :: "avr \<Rightarrow> string \<Rightarrow> avr \<times> bool \<times> bool" where
  "lookup_loop s data =
     (case matching_key data of
        None \<Rightarrow> (s, False, False)
      | Some key \<Rightarrow>
          (store_value s key data, True, get_attribute_value s key \<noteq> value_of key data))"

text \<open>The block marked \<^verbatim>\<open># Poweron update\<close>.\<close>

definition poweron_update :: "avr \<Rightarrow> outcome" where
  "poweron_update s =
     (if power s \<and> \<not> poweron_refresh_successful s then call_soon s PoweronCallback
      else Done s)"

text \<open>The block marked \<^verbatim>\<open># Volume update\<close>, entered when the message starts with one of
  the two volume prefixes. \<^verbatim>\<open>if self._volume_target:\<close> is the truth value of an optional
  int: false on \<^verbatim>\<open>None\<close> and on 0.\<close>

definition converge :: "avr \<Rightarrow> avr" where
  "converge s =
     (case volume_target s of
        None \<Rightarrow> s
      | Some t \<Rightarrow>
          if t \<noteq> 0
          then if get_integer s ATTR_VOLUME_UP \<noteq> t
               then send_command s
                      (if t > get_integer s ATTR_VOLUME_UP then CMD_VOLUME_UP
                       else CMD_VOLUME_DOWN) ''''
               else s\<lparr>volume_target := None\<rparr>
          else s)"

definition probe_answered :: "avr \<Rightarrow> avr" where
  "probe_answered s =
     (if volume_update_state s = 1
      then (send_command s CMD_VOLUME_UP '''')\<lparr>volume_update_state := 2\<rparr>
      else s)"

definition volume_update :: "avr \<Rightarrow> avr" where
  "volume_update s = probe_answered (converge s)"

text \<open>The end of the method: the update callback when there is new data, the debug
  lines otherwise and for an unrecognized message.\<close>

definition report :: "avr \<Rightarrow> string \<Rightarrow> bool \<Rightarrow> bool \<Rightarrow> outcome" where
  "report s data recognized newdata =
     and_then
       (if newdata
        then if update_callback s then call_soon s (UpdateCallback data) else Done s
        else Done (log_to DEBUG s ''No new data encountered'' []))
       (\<lambda>s'. Done (if \<not> recognized
                    then log_to DEBUG s' ''Unrecognized response: %s'' [PyStr data]
                    else s'))"

definition parse_message :: "avr \<Rightarrow> string \<Rightarrow> outcome" where
  "parse_message s data =
     (if startswith data ''#11,01''
      then report (log_to WARNING s ''Command Group Unknown'' []) data True False
      else if startswith data ''#11,02''
      then report (log_to WARNING s ''Command Number in Group Unknown'' []) data True False
      else if startswith data ''#11,03''
      then report (log_to WARNING s ''Command Data Error'' []) data True False
      else (case lookup_loop s data of
              (s1, recognized, newdata) \<Rightarrow>
                and_then (poweron_update s1)
                  (\<lambda>s2. if startswith data (wire ATTR_VOLUME_UP)
                            \<or> startswith data (wire ATTR_VOLUME_DOWN)
                         then report (volume_update s2) data True True
                         else report s2 data recognized newdata)))"

subsection \<open>\<^verbatim>\<open>data_received\<close> and \<^verbatim>\<open>_assemble_buffer\<close>\<close>

definition pause_reading :: "avr \<Rightarrow> outcome" where
  "pause_reading s =
     (case transport s of
        None \<Rightarrow> Raised AttributeError s
      | Some t \<Rightarrow> Done (s\<lparr>transport := Some (t\<lparr>reading_paused := True\<rparr>)\<rparr>))"

definition resume_reading :: "avr \<Rightarrow> outcome" where
  "resume_reading s =
     (case transport s of
        None \<Rightarrow> Raised AttributeError s
      | Some t \<Rightarrow> Done (s\<lparr>transport := Some (t\<lparr>reading_paused := False\<rparr>)\<rparr>))"

text \<open>The \<^verbatim>\<open>for message in self.buffer.split("\r")\<close> loop.\<close>

fun parse_messages :: "avr \<Rightarrow> string list \<Rightarrow> outcome" where
  "parse_messages s [] = Done s"
| "parse_messages s (message # rest) =
     (if message \<noteq> ''''
      then and_then
             (parse_message (log_to DEBUG s ''assembled message %s'' [PyStr message]) message)
             (\<lambda>s'. parse_messages s' rest)
      else parse_messages s rest)"

definition assemble_buffer :: "avr \<Rightarrow> outcome" where
  "assemble_buffer s =
     and_then (pause_reading s)
       (\<lambda>s1. and_then (parse_messages s1 (py_split CR (buffer s1)))
                (\<lambda>s2. resume_reading (s2\<lparr>buffer := ''''\<rparr>)))"

definition data_received :: "avr \<Rightarrow> string \<Rightarrow> outcome" where
  "data_received s data =
     assemble_buffer
       (log_to DEBUG (s\<lparr>buffer := buffer s @ data\<rparr>) ''Received %d bytes from AVR: %s''
          [PyInt (int (length (buffer s @ data))), PyStr (buffer s @ data)])"

definition connection_made :: "avr \<Rightarrow> transport_state \<Rightarrow> avr" where
  "connection_made s t =
     log_to DEBUG
       ((log_to DEBUG s ''Connection established to AVR'' [])\<lparr>transport := Some t\<rparr>)
       ''Write buffer limits %d to %d''
       [PyInt (fst (write_buffer_limits t)), PyInt (snd (write_buffer_limits t))]"

text \<open>\<^verbatim>\<open>connection_lost(exc)\<close>; \<open>exc\<close> is the text of the exception, if any.\<close>

definition connection_lost :: "avr \<Rightarrow> string option \<Rightarrow> outcome" where
  "connection_lost s exc =
     (if connection_lost_callback s
      then call_soon
             ((case exc of
                 Some e \<Rightarrow> log_to DEBUG (log_to WARNING s ''Lost connection to receiver'' []) e []
               | None \<Rightarrow> log_to WARNING s ''Lost connection to receiver'' [])
                \<lparr>transport := None\<rparr>)
             ConnectionLostCallback
      else Done
             ((case exc of
                 Some e \<Rightarrow> log_to DEBUG (log_to WARNING s ''Lost connection to receiver'' []) e []
               | None \<Rightarrow> log_to WARNING s ''Lost connection to receiver'' [])
                \<lparr>transport := None\<rparr>))"

subsection \<open>The event loop runs what was scheduled\<close>

text \<open>The update and connection-lost callbacks belong to the caller and do not touch the
  handler.\<close>

definition run_callback :: "avr \<Rightarrow> callback \<Rightarrow> outcome" where
  "run_callback s cb =
     (case cb of
        PoweronCallback \<Rightarrow> poweron_callback s
      | RefreshVolume tries \<Rightarrow> refresh_volume s tries
      | UpdateCallback data \<Rightarrow> Done s
      | ConnectionLostCallback \<Rightarrow> Done s)"

text \<open>The callback queued first by \<^verbatim>\<open>call_soon\<close> runs.\<close>

definition run_ready :: "avr \<Rightarrow> outcome" where
  "run_ready s =
     (case loop s of
        None \<Rightarrow> Done s
      | Some l \<Rightarrow>
          (case ready l of
             [] \<Rightarrow> Done s
           | cb # rest \<Rightarrow> run_callback (s\<lparr>loop := Some (l\<lparr>ready := rest\<rparr>)\<rparr>) cb))"

text \<open>The timer armed first by \<^verbatim>\<open>call_later\<close> fires (all delays are 2 seconds, so timers
  fire in the order they were armed); nothing happens when no timer is armed.\<close>

definition fire_timer :: "avr \<Rightarrow> outcome" where
  "fire_timer s =
     (case loop s of
        None \<Rightarrow> Done s
      | Some l \<Rightarrow>
          (case scheduled l of
             [] \<Rightarrow> Done s
           | (delay, cb) # rest \<Rightarrow> run_callback (s\<lparr>loop := Some (l\<lparr>scheduled := rest\<rparr>)\<rparr>) cb))"

text \<open>What reaches the handler while the loop runs: the callback queued first by
  \<^verbatim>\<open>call_soon\<close> runs, the first armed timer fires, or a message is decoded.\<close>

datatype event = CallbackRuns | TimerFires | Decoded string

fun run_events :: "avr \<Rightarrow> event list \<Rightarrow> outcome" where
  "run_events s [] = Done s"
| "run_events s (CallbackRuns # es) = and_then (run_ready s) (\<lambda>s'. run_events s' es)"
| "run_events s (TimerFires # es) = and_then (fire_timer s) (\<lambda>s'. run_events s' es)"
| "run_events s (Decoded data # es) = and_then (parse_message s data) (\<lambda>s'. run_events s' es)"

definition fires :: "event list \<Rightarrow> nat" where
  "fires es = length (filter (\<lambda>e. e = TimerFires) es)"

text \<open>Observations on a handler: what was written to the transport, the warnings logged,
  the timers armed.\<close>

definition sent :: "avr \<Rightarrow> string list" where
  "sent s = (case transport s of None \<Rightarrow> [] | Some t \<Rightarrow> written t)"

definition warnings :: "avr \<Rightarrow> string list" where
  "warnings s = map (\<lambda>(lvl, fmt, args). fmt) (filter (\<lambda>(lvl, fmt, args). lvl = WARNING) (log_lines s))"

definition queued :: "avr \<Rightarrow> callback list" where
  "queued s = (case loop s of None \<Rightarrow> [] | Some l \<Rightarrow> ready l)"

definition timers :: "avr \<Rightarrow> (int \<times> callback) list" where
  "timers s = (case loop s of None \<Rightarrow> [] | Some l \<Rightarrow> scheduled l)"

text \<open>A handler as the connection code sets it up: constructed with an event loop on which
  nothing is scheduled yet, and connected to a transport nothing was written to.\<close>

definition connected :: "bool \<Rightarrow> avr" where
  "connected update_cb =
     connection_made (init update_cb (Some \<lparr>ready = [], scheduled = []\<rparr>) False)
       \<lparr>written = [], reading_paused = False, write_buffer_limits = (16384, 65536)\<rparr>"

text \<open>The handler an outcome leaves behind, and the exception if one was raised.\<close>

definition result :: "outcome \<Rightarrow> avr" where
  "result r = (case r of Done s \<Rightarrow> s | Raised e s \<Rightarrow> s)"

definition raised :: "outcome \<Rightarrow> error option" where
  "raised r = (case r of Done s \<Rightarrow> None | Raised e s \<Rightarrow> Some e)"

text \<open>The messages \<^verbatim>\<open>_assemble_buffer\<close> handed to \<^verbatim>\<open>_parse_message\<close>, read off its debug line.\<close>

definition assembled :: "avr \<Rightarrow> pyval list" where
  "assembled s =
     concat (map (\<lambda>(lvl, fmt, args). if fmt = ''assembled message %s'' then args else [])
               (log_lines s))"

text \<open>The number of probe timeouts logged.\<close>

definition timeouts :: "avr \<Rightarrow> nat" where
  "timeouts s = count_list (warnings s) ''Refresh Volume timed out!''"

text \<open>The callbacks of the caller, which leave the handler as it is.\<close>

definition external :: "callback \<Rightarrow> bool" where
  "external cb =
     (case cb of
        PoweronCallback \<Rightarrow> False
      | RefreshVolume tries \<Rightarrow> False
      | UpdateCallback data \<Rightarrow> True
      | ConnectionLostCallback \<Rightarrow> True)"

text \<open>A single probe after \<open>j\<close> timer fires: the state is Requested, the handler has its
  transport and loop, the power-on flag is set, no callback of the handler is queued, and
  the retry timer is armed while fewer than ten fires have passed.\<close>

definition probe_after :: "avr \<Rightarrow> nat \<Rightarrow> bool" where
  "probe_after s j \<longleftrightarrow>
     volume_update_state s = 1 \<and> transport s \<noteq> None \<and> loop s \<noteq> None
     \<and> poweron_refresh_successful s
     \<and> list_all external (queued s)
     \<and> timers s = (if j < 10 then [(2, RefreshVolume (int j + 1))] else [])"

subsection \<open>Scenarios\<close>

text \<open>A connected handler after the power-on callback ran: the probe is under way.\<close>

definition probing :: avr where
  "probing = result (poweron_callback (connected False))"

text \<open>A connected handler after the chunk \<^verbatim>\<open>b"#6,01,"\<close>, the first part of a message.\<close>

definition half_message :: avr where
  "half_message = result (data_received (connected False) ''#6,01,'')"

text \<open>A connected handler after one chunk that holds two PowerState=On messages.\<close>

definition power_burst :: avr where
  "power_burst =
     result (data_received (connected False) (''#6,01,1'' @ [CR] @ ''#6,01,1'' @ [CR]))"

text \<open>A connected handler that has observed the volume \<open>-10\<close>.\<close>

definition at_minus_10 :: avr where
  "at_minus_10 = result (parse_message (connected False) ''#6,02,-10'')"

text \<open>A connected handler after the chunk \<^verbatim>\<open>b"#6,01,1\r#6,11,00\r"\<close>: power on, then mute
  off.\<close>

definition power_and_mute :: avr where
  "power_and_mute =
     result (data_received (connected False) (''#6,01,1'' @ [CR] @ ''#6,11,00'' @ [CR]))"

text \<open>The handler that has observed \<open>-10\<close>, after the attenuation was set to \<open>-5\<close>.\<close>

definition seeking_minus_5 :: avr where
  "seeking_minus_5 = set_attenuation at_minus_10 (PyInt (- 5))"

section \<open>Evaluation lemmas\<close>

lemma floor_rat_numeral_div:
  "\<lfloor>(numeral a :: rat) / numeral b\<rfloor> = numeral a div numeral b"
  using floor_divide_of_int_eq [of "numeral a" "numeral b", where ?'a = rat] by simp

lemma floor_rat_one_div: "\<lfloor>(1 :: rat) / numeral b\<rfloor> = 1 div numeral b"
  using floor_divide_of_int_eq [of 1 "numeral b", where ?'a = rat] by simp

lemma ceiling_rat_numeral_div:
  "\<lceil>(numeral a :: rat) / numeral b\<rceil> = - (- numeral a div numeral b)"
  using floor_divide_of_int_eq [of "- numeral a" "numeral b", where ?'a = rat]
  by (simp add: ceiling_def)

lemma ceiling_rat_one_div: "\<lceil>(1 :: rat) / numeral b\<rceil> = - (- 1 div numeral b)"
  using floor_divide_of_int_eq [of "- 1" "numeral b", where ?'a = rat]
  by (simp add: ceiling_def)

lemmas float_eval =
  volume_to_attenuation_def attenuation_to_volume_def attenuation_of_int_def
  int_true_divide_def int_to_float_def py_round_def float_mul_def float_div_def float_add_def
  float_round_def float_round_at_def float_pack_def float_exponent_def round_half_even_def
  round_from_def pow2_def bit_length.simps
  floor_rat_numeral_div floor_rat_one_div ceiling_rat_numeral_div ceiling_rat_one_div

lemma py_int_empty: "py_int '''' = None"
  by (simp add: py_int_def strip_def)

section \<open>The rounding model\<close>

lemma bit_length_bounds:
  "0 < n \<Longrightarrow> 0 < bit_length n \<and> 2 ^ nat (bit_length n - 1) \<le> n \<and> n < 2 ^ nat (bit_length n)"
proof (induction n rule: bit_length.induct)
  case (1 n)
  show ?case
  proof (cases "n div 2 = 0")
    case True
    with "1.prems" have "n = 1" by presburger
    then show ?thesis
      by (simp add: bit_length.simps)
  next
    case False
    with "1.prems" have pos: "0 < n div 2" by presburger
    define b where "b = bit_length (n div 2)"
    from "1.IH" "1.prems" pos
    have ih: "0 < b" "2 ^ nat (b - 1) \<le> n div 2" "n div 2 < 2 ^ nat b"
      by (simp_all add: b_def)
    have bl: "bit_length n = 1 + b"
      using "1.prems" by (subst bit_length.simps) (simp add: b_def)
    have nb: "nat b = Suc (nat (b - 1))"
      using ih(1) by simp
    have lo: "(2::int) ^ nat b \<le> n"
    proof -
      have "(2::int) ^ nat b = 2 * 2 ^ nat (b - 1)" by (subst nb) simp
      also have "\<dots> \<le> 2 * (n div 2)" using ih(2) by simp
      also have "\<dots> \<le> n" by presburger
      finally show ?thesis .
    qed
    have hi: "n < 2 ^ nat (1 + b)"
    proof -
      have "n < 2 * (n div 2 + 1)" by presburger
      also have "\<dots> \<le> 2 * 2 ^ nat b" using ih(3) by simp
      also have "\<dots> = 2 ^ nat (1 + b)" using ih(1) by (simp add: nat_add_distrib)
      finally show ?thesis .
    qed
    show ?thesis
      using ih(1) lo hi by (simp add: bl)
  qed
qed

lemma pow2_powi: "pow2 e = 2 powi e"
  by (simp add: pow2_def power_int_def inverse_eq_divide power_one_over)

lemma pow2_pos: "0 < pow2 e"
  by (simp add: pow2_powi)

lemma pow2_add: "pow2 (a + b) = pow2 a * pow2 b"
  by (simp add: pow2_powi power_int_add)

lemma pow2_nat: "0 \<le> k \<Longrightarrow> pow2 k = of_int (2 ^ nat k)"
  by (simp add: pow2_def)

text \<open>The exponent \<open>k\<close> with \<open>2^k \<le> a < 2^(k+1)\<close>.\<close>

lemma float_exponent_log:
  assumes "0 < a"
  shows "pow2 (float_exponent a + 52) \<le> a \<and> a < pow2 (float_exponent a + 53)"
proof (cases "1 \<le> a")
  case True
  define n where "n = \<lfloor>a\<rfloor>"
  have n: "0 < n" "of_int n \<le> a" "a < of_int (n + 1)"
    using True by (simp_all add: n_def) linarith+
  from bit_length_bounds [OF n(1)]
  have b: "0 < bit_length n" "2 ^ nat (bit_length n - 1) \<le> n" "n < 2 ^ nat (bit_length n)"
    by simp_all
  have e: "float_exponent a = bit_length n - 1 - 52"
    using True by (simp add: float_exponent_def n_def)
  have "pow2 (bit_length n - 1) = of_int (2 ^ nat (bit_length n - 1))"
    using b(1) by (intro pow2_nat) simp
  also have "\<dots> \<le> of_int n" using b(2) by (simp only: of_int_le_iff)
  finally have lo: "pow2 (bit_length n - 1) \<le> a" using n(2) by simp
  have "a < of_int (n + 1)" by (rule n(3))
  also have "\<dots> \<le> (of_int (2 ^ nat (bit_length n)) :: rat)"
    using b(3) by (simp only: of_int_le_iff; simp)
  also have "\<dots> = pow2 (bit_length n)"
    using b(1) by (intro pow2_nat [symmetric]) simp
  finally have hi: "a < pow2 (bit_length n)" .
  show ?thesis
    using lo hi by (simp add: e)
next
  case False
  define m where "m = \<lceil>1 / a\<rceil> - 1"
  have inv: "1 < 1 / a" using False assms by simp
  have m: "0 < m" "of_int m < 1 / a" "1 / a \<le> of_int (m + 1)"
    using inv by (simp_all add: m_def) linarith+
  from bit_length_bounds [OF m(1)]
  have b: "0 < bit_length m" "2 ^ nat (bit_length m - 1) \<le> m" "m < 2 ^ nat (bit_length m)"
    by simp_all
  have e: "float_exponent a = - bit_length m - 52"
    using False by (simp add: float_exponent_def m_def)
  have "1 / a \<le> of_int (m + 1)" by (rule m(3))
  also have "\<dots> \<le> (of_int (2 ^ nat (bit_length m)) :: rat)"
    using b(3) by (simp only: of_int_le_iff; simp)
  also have "\<dots> = pow2 (bit_length m)"
    using b(1) by (intro pow2_nat [symmetric]) simp
  finally have "1 / a \<le> pow2 (bit_length m)" .
  then have "1 \<le> a * pow2 (bit_length m)"
    using assms by (simp add: field_simps)
  moreover have "pow2 (- bit_length m) * pow2 (bit_length m) = 1"
    using pow2_add [of "- bit_length m" "bit_length m"] by (simp add: pow2_def)
  ultimately have lo: "pow2 (- bit_length m) \<le> a"
    using pow2_pos [of "bit_length m"] pow2_pos [of "- bit_length m"]
    by (metis mult_le_cancel_right_pos)
  have "pow2 (bit_length m - 1) = of_int (2 ^ nat (bit_length m - 1))"
    using b(1) by (intro pow2_nat) simp
  also have "\<dots> \<le> of_int m" using b(2) by (simp only: of_int_le_iff)
  also have "\<dots> < 1 / a" by (rule m(2))
  finally have "a * pow2 (bit_length m - 1) < 1"
    using assms by (simp add: field_simps)
  moreover have "pow2 (1 - bit_length m) * pow2 (bit_length m - 1) = 1"
    using pow2_add [of "1 - bit_length m" "bit_length m - 1"] by (simp add: pow2_def)
  ultimately have hi: "a < pow2 (1 - bit_length m)"
    using pow2_pos [of "bit_length m - 1"] pow2_pos [of "1 - bit_length m"]
    by (metis mult_less_cancel_right_pos)
  show ?thesis
    using lo hi by (simp add: e algebra_simps)
qed

lemma round_half_even_close:
  "\<bar>of_int (round_half_even x) - x\<bar> \<le> 1 / 2"
  "\<lfloor>x\<rfloor> \<le> round_half_even x" "round_half_even x \<le> \<lfloor>x\<rfloor> + 1"
proof -
  have f: "of_int \<lfloor>x\<rfloor> \<le> x" "x < of_int \<lfloor>x\<rfloor> + 1"
    by linarith+
  show "\<bar>of_int (round_half_even x) - x\<bar> \<le> 1 / 2"
    using f by (auto simp: round_half_even_def round_from_def)
  show "\<lfloor>x\<rfloor> \<le> round_half_even x" "round_half_even x \<le> \<lfloor>x\<rfloor> + 1"
    by (auto simp: round_half_even_def round_from_def)
qed

text \<open>\<open>float_round\<close> rounds correctly: a finite result of a nonzero \<open>q\<close> has a significand
  of 53 bits at the exponent of \<open>q\<close> and differs from \<open>q\<close> by at most half a unit of the
  last place.\<close>

lemma float_round_nearest:
  assumes "q \<noteq> 0" and "float_round q = Finite r"
  shows "\<exists>m e. r = sgn q * of_int m * pow2 e \<and> 2 ^ 52 \<le> m \<and> m \<le> 2 ^ 53
           \<and> \<bar>r - q\<bar> \<le> pow2 e / 2"
proof -
  define e where "e = float_exponent \<bar>q\<bar>"
  define x where "x = \<bar>q\<bar> / pow2 e"
  define m where "m = round_half_even x"
  have a: "0 < \<bar>q\<bar>" using assms(1) by simp
  have p: "pow2 (e + 52) = pow2 e * 2 ^ 52" "pow2 (e + 53) = pow2 e * 2 ^ 53"
    unfolding pow2_add by (simp_all add: pow2_def)
  from float_exponent_log [OF a]
  have "pow2 e * 2 ^ 52 \<le> \<bar>q\<bar>" "\<bar>q\<bar> < pow2 e * 2 ^ 53"
    unfolding p [symmetric] by (simp_all add: e_def)
  then have x: "2 ^ 52 \<le> x" "x < 2 ^ 53"
    using pow2_pos [of e] by (simp_all add: x_def field_simps)
  have fl: "(2::int) ^ 52 \<le> \<lfloor>x\<rfloor>"
    using x(1) by (simp add: le_floor_iff)
  have lo: "2 ^ 52 \<le> m"
    unfolding m_def by (rule order_trans [OF fl round_half_even_close(2)])
  have "\<lfloor>x\<rfloor> < (2::int) ^ 53"
    using x(2) by (simp add: floor_less_iff)
  then have fu: "\<lfloor>x\<rfloor> + 1 \<le> (2::int) ^ 53"
    by (simp only: zless_imp_add1_zle)
  have hi: "m \<le> 2 ^ 53"
    unfolding m_def by (rule order_trans [OF round_half_even_close(3) fu])
  have r: "r = sgn q * of_int m * pow2 e"
    using assms
    by (simp add: float_round_def float_round_at_def float_pack_def e_def x_def m_def
        split: if_splits)
  have q: "q = sgn q * (x * pow2 e)"
    using pow2_pos [of e] by (simp add: x_def sgn_mult_abs)
  have "r - q = sgn q * ((of_int m - x) * pow2 e)"
    by (subst q) (simp add: r algebra_simps)
  then have "\<bar>r - q\<bar> = \<bar>of_int m - x\<bar> * pow2 e"
    using assms(1) pow2_pos [of e] by (simp add: abs_mult abs_sgn_eq)
  also have "\<dots> \<le> (1 / 2) * pow2 e"
    using round_half_even_close(1) [of x] pow2_pos [of e]
    by (intro mult_right_mono) (simp_all add: m_def)
  finally have "\<bar>r - q\<bar> \<le> pow2 e / 2" by simp
  with r lo hi show ?thesis by blast
qed

text \<open>Two values to compare with any IEEE 754 implementation: the double nearest to
  \<open>1/10\<close>, and the product \<^verbatim>\<open>0.35 * 90\<close>, which is below \<open>31.5\<close> and so rounds to 31.\<close>

lemma float_round_tenth:
  "float_round (1 / 10) = Finite (3602879701896397 / 36028797018963968)"
  by (simp add: float_eval split del: if_split)

lemma float_mul_35_90:
  "float_mul (float_round (35 / 100)) 90 = Finite (8866461766385663 / 281474976710656)"
  by (simp add: float_eval split del: if_split)

section \<open>Conversion of invalid input\<close>

lemma volume_to_attenuation_text: "volume_to_attenuation (PyStr t) = Inl TypeError"
  by (simp add: volume_to_attenuation_def)

lemma attenuation_to_volume_text:
  "py_int t = None \<Longrightarrow> attenuation_to_volume (PyStr t) = Inr 0"
  by (simp add: attenuation_to_volume_def)

text \<open>
  C7. On input that is no number \<^verbatim>\<open>attenuation_to_volume\<close> returns 0 and
  \<^verbatim>\<open>volume_to_attenuation\<close> returns \<open>-90\<close>, neither raising. The code at the text \<^verbatim>\<open>"abc"\<close>:
  \<^verbatim>\<open>attenuation_to_volume\<close> returns 0, but \<^verbatim>\<open>volume_to_attenuation\<close> divides the text by 100,
  which raises \<^verbatim>\<open>TypeError\<close>, and its handler catches \<^verbatim>\<open>ValueError\<close> only.
\<close>

theorem volume_to_attenuation_text_raises:
  "volume_to_attenuation (PyStr ''abc'') = Inl TypeError
   \<and> attenuation_to_volume (PyStr ''abc'') = Inr 0"
  by (simp add: volume_to_attenuation_def attenuation_to_volume_def py_int_def strip_def
      py_isspace_def is_digit_def)

section \<open>Accessor defaults\<close>

lemma attenuation_floor: "attenuation_to_volume (PyInt (- 90)) = Inr 0"
  by (simp add: float_eval split del: if_split)

lemma init_attrs: "get_attribute_value (init u l c) attr = ''''"
  by (cases attr) (simp_all add: init_def get_attribute_value_def LOOKUP_keys_def)

text \<open>
  C9. An accessor read while the attribute is unset (the empty string) or is no integer
  literal returns the default and does not raise: \<open>get_integer\<close> (behind \<open>input_number\<close>)
  gives 0, \<open>get_boolean\<close> (behind \<open>power\<close> and \<open>mute\<close>) gives \<open>False\<close>, \<open>attenuation\<close>
  gives \<open>-90\<close>, and \<open>volume\<close>, derived from it, returns 0.
\<close>

theorem accessor_defaults:
  "(py_int (get_attribute_value s attr) = None \<longrightarrow>
      get_integer s attr = 0 \<and> get_boolean s attr = False)
   \<and> (py_int (get_attribute_value s ATTR_SELECTED_INPUT) = None \<longrightarrow> input_number s = 0)
   \<and> (py_int (get_attribute_value s ATTR_POWER_STATE) = None \<longrightarrow> power s = False)
   \<and> (py_int (get_attribute_value s ATTR_MUTE_STATE) = None \<longrightarrow> mute s = False)
   \<and> (py_int (get_attribute_value s ATTR_VOLUME_UP) = None \<longrightarrow>
         attenuation s = - 90 \<and> volume s = Inr 0)
   \<and> py_int '''' = None"
  by (simp add: get_integer_def get_boolean_def input_number_def power_def mute_def
      attenuation_def volume_def attenuation_floor py_int_empty)

theorem accessor_defaults_witness:
  "input_number (init False None False) = 0
   \<and> power (init False None False) = False
   \<and> mute (init False None False) = False
   \<and> attenuation (init False None False) = - 90
   \<and> volume (init False None False) = Inr 0"
  using accessor_defaults [of "init False None False" ATTR_SELECTED_INPUT]
  by (simp add: init_attrs py_int_empty)

section \<open>The decoder\<close>

lemmas handler_defs =
  parse_message_def report_def poweron_update_def lookup_loop_def store_value_def
  volume_update_def converge_def probe_answered_def send_command_def call_soon_def
  call_later_def log_to_def and_then_def set_attribute_value_def get_attribute_value_def
  get_integer_def get_boolean_def power_def attenuation_def change_indicator_def

lemmas observe_defs = sent_def queued_def timers_def warnings_def result_def raised_def

lemma startswith_append: "startswith s p \<longleftrightarrow> (\<exists>r. s = p @ r)"
  unfolding startswith_def
  by (metis append_eq_conv_conj append_take_drop_id)

lemma matching_key_None: "(\<forall>key. \<not> startswith data (wire key)) \<Longrightarrow> matching_key data = None"
  by (simp add: matching_key_def find_None_iff)

lemma matching_key_volume:
  "startswith data (wire ATTR_VOLUME_UP) \<Longrightarrow> matching_key data = Some ATTR_VOLUME_UP"
  "startswith data (wire ATTR_VOLUME_DOWN) \<Longrightarrow> matching_key data = Some ATTR_VOLUME_DOWN"
  by (auto simp: startswith_append matching_key_def LOOKUP_keys_def)

lemma volume_not_error:
  assumes "startswith data (wire ATTR_VOLUME_UP) \<or> startswith data (wire ATTR_VOLUME_DOWN)"
  shows "\<not> startswith data ''#11,01''" "\<not> startswith data ''#11,02''"
    "\<not> startswith data ''#11,03''"
  using assms by (auto simp: startswith_append)

text \<open>
  C8. A message that starts with none of the catalog's attribute prefixes and none of the
  three device-error prefixes is decoded without an exception (the handler having its event
  loop), changes no stored attribute, and queues no update callback: the only callback it
  can queue is the power-on callback, when the power is on and the power-on flag is not
  set. Nothing is written to the transport.
\<close>

theorem unknown_message_ignored:
  assumes "\<forall>key. \<not> startswith data (wire key)"
    and "\<not> startswith data ''#11,01''" "\<not> startswith data ''#11,02''"
      "\<not> startswith data ''#11,03''"
    and "loop s \<noteq> None"
  shows "\<exists>s'. parse_message s data = Done s'
           \<and> attrs s' = attrs s
           \<and> queued s' = queued s
                @ (if power s \<and> \<not> poweron_refresh_successful s then [PoweronCallback] else [])
           \<and> sent s' = sent s"
proof -
  have none: "matching_key data = None"
    using assms(1) by (rule matching_key_None)
  have vol: "\<not> startswith data (wire ATTR_VOLUME_UP)" "\<not> startswith data (wire ATTR_VOLUME_DOWN)"
    using assms(1) by blast+
  from assms(5) obtain l where l: "loop s = Some l" by auto
  show ?thesis
    using assms(2-4) vol none l
    by (simp add: handler_defs observe_defs)
qed


lemma connected_loop: "loop (connected u) \<noteq> None"
  by (simp add: connected_def connection_made_def init_def log_to_def)

lemma init_attrs_all: "attrs (init u l c) n = ''''"
  by (simp add: init_def LOOKUP_keys_def)

lemma connected_fields:
  "attrs (connected u) n = ''''"
  "loop (connected u) = Some \<lparr>ready = [], scheduled = []\<rparr>"
  "transport (connected u)
     = Some \<lparr>written = [], reading_paused = False, write_buffer_limits = (16384, 65536)\<rparr>"
  "volume_update_state (connected u) = 0"
  "volume_target (connected u) = None"
  "poweron_refresh_successful (connected u) = False"
  "update_callback (connected u) = u"
  "buffer (connected u) = ''''"
  by (simp_all add: connected_def connection_made_def log_to_def init_attrs_all)
    (simp_all add: init_def)

theorem unknown_message_ignored_witness:
  "raised (parse_message (connected True) ''#99,99,x'') = None
   \<and> attrs (result (parse_message (connected True) ''#99,99,x'')) = attrs (connected True)
   \<and> queued (result (parse_message (connected True) ''#99,99,x'')) = []
   \<and> sent (result (parse_message (connected True) ''#99,99,x'')) = []"
proof -
  have "\<forall>key. \<not> startswith ''#99,99,x'' (wire key)"
  proof
    fix key show "\<not> startswith ''#99,99,x'' (wire key)"
      by (cases key) (simp_all add: startswith_def)
  qed
  from unknown_message_ignored [OF this _ _ _ connected_loop [of True]]
  obtain s' where "parse_message (connected True) ''#99,99,x'' = Done s'"
    "attrs s' = attrs (connected True)"
    "queued s' = queued (connected True)
       @ (if power (connected True) \<and> \<not> poweron_refresh_successful (connected True)
          then [PoweronCallback] else [])"
    "sent s' = sent (connected True)"
    by (auto simp: startswith_def)
  moreover have "\<not> power (connected True)"
    by (simp add: power_def get_boolean_def get_attribute_value_def connected_fields py_int_empty)
  moreover have "queued (connected True) = []" "sent (connected True) = []"
    by (simp_all add: connected_fields observe_defs)
  ultimately show ?thesis
    by (simp add: result_def raised_def)
qed

subsection \<open>What each step of the decoder changes\<close>

lemma store_value_frame:
  "attrs (store_value s key data) = (attrs s)(''_'' @ LOOKUP_name key := value_of key data)"
  "loop (store_value s key data) = loop s"
  "transport (store_value s key data) = transport s"
  "volume_update_state (store_value s key data) = volume_update_state s"
  "volume_target (store_value s key data) = volume_target s"
  "poweron_refresh_successful (store_value s key data) = poweron_refresh_successful s"
  "update_callback (store_value s key data) = update_callback s"
  by (simp_all add: store_value_def set_attribute_value_def log_to_def split: option.split)

lemma poweron_update_shape:
  assumes "loop s = Some l"
  shows "poweron_update s
    = Done (s\<lparr>loop := Some (l\<lparr>ready := ready l
               @ (if power s \<and> \<not> poweron_refresh_successful s then [PoweronCallback] else [])\<rparr>)\<rparr>)"
  using assms by (simp add: poweron_update_def call_soon_def)

lemma report_frame:
  assumes "loop s = Some l"
  shows "\<exists>s'. report s data recognized newdata = Done s'
    \<and> loop s' = Some (l\<lparr>ready := ready l
               @ (if newdata \<and> update_callback s then [UpdateCallback data] else [])\<rparr>)
    \<and> attrs s' = attrs s \<and> transport s' = transport s
    \<and> volume_update_state s' = volume_update_state s
    \<and> volume_target s' = volume_target s
    \<and> poweron_refresh_successful s' = poweron_refresh_successful s
    \<and> update_callback s' = update_callback s"
  using assms by (simp add: report_def call_soon_def and_then_def log_to_def)

lemma send_command_frame:
  "attrs (send_command s command data) = attrs s"
  "loop (send_command s command data) = loop s"
  "volume_update_state (send_command s command data) = volume_update_state s"
  "volume_target (send_command s command data) = volume_target s"
  "poweron_refresh_successful (send_command s command data) = poweron_refresh_successful s"
  "update_callback (send_command s command data) = update_callback s"
  "transport (send_command s command data)
     = map_option (\<lambda>t. t\<lparr>written := written t @ [wire_command command data]\<rparr>) (transport s)"
  by (simp_all add: send_command_def log_to_def split: option.split)

lemma sent_send_command:
  "transport s \<noteq> None \<Longrightarrow> sent (send_command s command data) = sent s @ [wire_command command data]"
  by (auto simp: sent_def send_command_frame)

lemma warnings_send_command:
  "transport s \<noteq> None \<Longrightarrow> warnings (send_command s command data) = warnings s"
  by (auto simp: warnings_def send_command_def log_to_def)

lemma volume_update_frame:
  "attrs (volume_update s) = attrs s"
  "loop (volume_update s) = loop s"
  "update_callback (volume_update s) = update_callback s"
  "poweron_refresh_successful (volume_update s) = poweron_refresh_successful s"
  by (simp_all add: volume_update_def converge_def probe_answered_def send_command_frame
      split: option.split)

lemma parse_volume_message:
  assumes "key = ATTR_VOLUME_UP \<or> key = ATTR_VOLUME_DOWN" and "startswith data (wire key)"
  shows "parse_message s data
    = and_then (poweron_update (store_value s key data))
        (\<lambda>s2. report (volume_update s2) data True True)"
proof -
  have vol: "startswith data (wire ATTR_VOLUME_UP) \<or> startswith data (wire ATTR_VOLUME_DOWN)"
    using assms by auto
  have key: "matching_key data = Some key"
    using assms matching_key_volume by auto
  show ?thesis
    using vol by (simp add: parse_message_def lookup_loop_def key volume_not_error [OF vol])
qed


subsection \<open>Evaluating a concrete run\<close>

lemmas probe_defs =
  poweron_callback_def refresh_volume_def refresh_idle_def refresh_requested_def
  refresh_completed_def fire_timer_def run_callback_def run_ready_def

lemmas text_eval =
  startswith_def value_of_def py_int_def strip_def py_isspace_def is_digit_def digit_value_def
  matching_key_def LOOKUP_keys_def LOOKUP_get_def wire_command_def CMD_VOLUME_UP_def
  CMD_VOLUME_DOWN_def CR_def

lemma connected_eq:
  "connected u =
     \<lparr>loop = Some \<lparr>ready = [], scheduled = []\<rparr>,
      log_lines = [(DEBUG, ''Connection established to AVR'', []),
                   (DEBUG, ''Write buffer limits %d to %d'', [PyInt 16384, PyInt 65536])],
      connection_lost_callback = False, update_callback = u, buffer = '''',
      input_names = [], input_numbers = [], poweron_refresh_successful = False,
      volume_update_state = 0, volume_update_success = False, volume_target = None,
      transport = Some \<lparr>written = [], reading_paused = False,
                         write_buffer_limits = (16384, 65536)\<rparr>,
      attrs = (\<lambda>_. '''')\<rparr>"
  by (simp add: connected_def connection_made_def init_def log_to_def LOOKUP_keys_def fun_eq_iff)

subsection \<open>The volume update\<close>

text \<open>What the block marked \<^verbatim>\<open># Volume update\<close> does, in terms of the value it reads from
  the volume field.\<close>

lemma volume_update_effect:
  "volume_target (volume_update s)
     = (case volume_target s of
          None \<Rightarrow> None
        | Some t \<Rightarrow> if t \<noteq> 0 \<and> get_integer s ATTR_VOLUME_UP = t then None else Some t)"
  "volume_update_state (volume_update s)
     = (if volume_update_state s = 1 then 2 else volume_update_state s)"
  "(transport (volume_update s) = None) = (transport s = None)"
  "transport s \<noteq> None \<Longrightarrow>
     sent (volume_update s)
       = sent s
         @ (case volume_target s of
              None \<Rightarrow> []
            | Some t \<Rightarrow>
                if t \<noteq> 0 \<and> get_integer s ATTR_VOLUME_UP \<noteq> t
                then [wire_command (if get_integer s ATTR_VOLUME_UP < t then CMD_VOLUME_UP
                                    else CMD_VOLUME_DOWN) '''']
                else [])
         @ (if volume_update_state s = 1 then [wire_command CMD_VOLUME_UP ''''] else [])"
  by (auto simp: volume_update_def converge_def probe_answered_def send_command_frame sent_def
      split: option.split)

text \<open>Decoding a message with one of the two volume prefixes: the value is stored in the
  volume field, and the volume update acts on that value.\<close>

lemma volume_message_effect:
  assumes "key = ATTR_VOLUME_UP \<or> key = ATTR_VOLUME_DOWN"
    and "startswith data (wire key)"
    and "loop s = Some l"
    and "v = (case py_int (value_of key data) of Some n \<Rightarrow> n | None \<Rightarrow> 0)"
  shows "\<exists>s' l'. parse_message s data = Done s'
    \<and> attrs s' = (attrs s)(''_volume'' := value_of key data)
    \<and> loop s' = Some l' \<and> scheduled l' = scheduled l
    \<and> volume_target s'
        = (case volume_target s of
             None \<Rightarrow> None
           | Some t \<Rightarrow> if t \<noteq> 0 \<and> v = t then None else Some t)
    \<and> volume_update_state s' = (if volume_update_state s = 1 then 2 else volume_update_state s)
    \<and> (transport s' = None) = (transport s = None)
    \<and> (transport s \<noteq> None \<longrightarrow>
          sent s'
            = sent s
              @ (case volume_target s of
                   None \<Rightarrow> []
                 | Some t \<Rightarrow>
                     if t \<noteq> 0 \<and> v \<noteq> t
                     then [wire_command (if v < t then CMD_VOLUME_UP else CMD_VOLUME_DOWN) '''']
                     else [])
              @ (if volume_update_state s = 1 then [wire_command CMD_VOLUME_UP ''''] else []))"
proof -
  note l = assms(3)
  define s1 where "s1 = store_value s key data"
  define s2 where "s2 = s1\<lparr>loop := Some (l\<lparr>ready := ready l
      @ (if power s1 \<and> \<not> poweron_refresh_successful s1 then [PoweronCallback] else [])\<rparr>)\<rparr>"
  have p: "poweron_update s1 = Done s2"
    unfolding s2_def by (rule poweron_update_shape) (simp add: s1_def store_value_frame l)
  have a2: "attrs s2 = (attrs s)(''_volume'' := value_of key data)"
    using assms(1) by (auto simp: s2_def s1_def store_value_frame)
  have f2: "volume_update_state s2 = volume_update_state s" "transport s2 = transport s"
    "volume_target s2 = volume_target s"
    by (simp_all add: s2_def s1_def store_value_frame)
  have g: "get_integer s2 ATTR_VOLUME_UP = v"
    by (simp add: get_integer_def get_attribute_value_def a2 assms(4))
  have l2: "loop (volume_update s2)
      = Some (l\<lparr>ready := ready l
          @ (if power s1 \<and> \<not> poweron_refresh_successful s1 then [PoweronCallback] else [])\<rparr>)"
    by (simp add: volume_update_frame s2_def)
  from report_frame [OF l2, of data True True]
  obtain s' where r: "report (volume_update s2) data True True = Done s'"
    and s': "attrs s' = attrs (volume_update s2)" "transport s' = transport (volume_update s2)"
      "volume_update_state s' = volume_update_state (volume_update s2)"
      "volume_target s' = volume_target (volume_update s2)"
    and l': "loop s' = Some (l\<lparr>ready := ready l
          @ (if power s1 \<and> \<not> poweron_refresh_successful s1 then [PoweronCallback] else [])\<rparr>
        \<lparr>ready := ready (l\<lparr>ready := ready l
          @ (if power s1 \<and> \<not> poweron_refresh_successful s1 then [PoweronCallback] else [])\<rparr>)
          @ (if True \<and> update_callback (volume_update s2) then [UpdateCallback data] else [])\<rparr>)"
    by blast
  have pm: "parse_message s data = Done s'"
    using p r by (simp add: parse_volume_message [OF assms(1,2)] s1_def and_then_def)
  have snt: "sent s' = sent (volume_update s2)" "sent s2 = sent s"
    using s'(2) f2(2) by (simp_all add: sent_def)
  have tr: "transport s \<noteq> None \<Longrightarrow> transport s2 \<noteq> None"
    using f2(2) by simp
  have t0: "attrs s' = (attrs s)(''_volume'' := value_of key data)"
    by (simp add: s'(1) volume_update_frame a2)
  from l' obtain l'' where lx: "loop s' = Some l''" "scheduled l'' = scheduled l"
    by simp
  have t1: "volume_target s'
        = (case volume_target s of
             None \<Rightarrow> None
           | Some t \<Rightarrow> if t \<noteq> 0 \<and> v = t then None else Some t)"
    by (simp add: s'(4) volume_update_effect(1) f2 g split: option.split)
  have t2: "volume_update_state s'
        = (if volume_update_state s = 1 then 2 else volume_update_state s)"
    by (simp add: s'(3) volume_update_effect(2) f2)
  have t3: "(transport s' = None) = (transport s = None)"
    by (simp add: s'(2) volume_update_effect(3) f2)
  have t4: "transport s \<noteq> None \<longrightarrow>
          sent s'
            = sent s
              @ (case volume_target s of
                   None \<Rightarrow> []
                 | Some t \<Rightarrow>
                     if t \<noteq> 0 \<and> v \<noteq> t
                     then [wire_command (if v < t then CMD_VOLUME_UP else CMD_VOLUME_DOWN) '''']
                     else [])
              @ (if volume_update_state s = 1 then [wire_command CMD_VOLUME_UP ''''] else [])"
  proof
    assume "transport s \<noteq> None"
    then have "transport s2 \<noteq> None" by (rule tr)
    from volume_update_effect(4) [OF this] show "sent s'
            = sent s
              @ (case volume_target s of
                   None \<Rightarrow> []
                 | Some t \<Rightarrow>
                     if t \<noteq> 0 \<and> v \<noteq> t
                     then [wire_command (if v < t then CMD_VOLUME_UP else CMD_VOLUME_DOWN) '''']
                     else [])
              @ (if volume_update_state s = 1 then [wire_command CMD_VOLUME_UP ''''] else [])"
      by (simp add: snt f2 g split: option.split)
  qed
  show ?thesis
    by (intro exI [of _ s'] exI [of _ l''] conjI) (fact pm t0 lx t1 t2 t3 t4)+
qed

lemma seeking_minus_5_fields:
  "loop seeking_minus_5 \<noteq> None"
  "transport seeking_minus_5 \<noteq> None"
  "volume_target seeking_minus_5 = Some (- 5)"
  "volume_update_state seeking_minus_5 = 0"
  "sent seeking_minus_5 = [wire_command CMD_VOLUME_UP '''']"
  by (simp_all add: seeking_minus_5_def at_minus_10_def connected_eq set_attenuation_def
      handler_defs observe_defs text_eval str_def digits.simps)

lemma py_int_minus_9: "py_int ''-9'' = Some (- 9)"
  by (simp add: py_int_def strip_def py_isspace_def is_digit_def digit_value_def)

text \<open>
  C10. The VolumeUp and VolumeDown entries of the catalog have the same name, so both
  store into the same field. Decoding a message with either prefix stores its value there;
  the volume update that follows reads it back (as an int, 0 when it is none), and after
  the decode both keys read the value and the attenuation getter returns it as an int
  (\<open>-90\<close> when it is none). The convergence handler acts on that value and on nothing
  older: the target is cleared exactly when it is not 0 and equals the value, and what is
  written is the nudge towards a target that is not 0 and differs from the value, then the
  Volume-Up of an answered probe when the state was Requested, which becomes Completed.
\<close>

theorem volume_keys_share_field:
  assumes "key = ATTR_VOLUME_UP \<or> key = ATTR_VOLUME_DOWN"
    and "startswith data (wire key)"
    and "loop s \<noteq> None"
  shows "LOOKUP_name ATTR_VOLUME_UP = LOOKUP_name ATTR_VOLUME_DOWN
    \<and> (\<exists>s2 s'. poweron_update (store_value s key data) = Done s2
          \<and> get_integer s2 ATTR_VOLUME_UP
              = (case py_int (value_of key data) of Some n \<Rightarrow> n | None \<Rightarrow> 0)
          \<and> parse_message s data = report (volume_update s2) data True True
          \<and> parse_message s data = Done s'
          \<and> get_attribute_value s' ATTR_VOLUME_UP = value_of key data
          \<and> get_attribute_value s' ATTR_VOLUME_DOWN = value_of key data
          \<and> attenuation s'
              = (case py_int (value_of key data) of Some n \<Rightarrow> n | None \<Rightarrow> - 90)
          \<and> volume_target s'
              = (case volume_target s of
                   None \<Rightarrow> None
                 | Some t \<Rightarrow>
                     if t \<noteq> 0
                        \<and> (case py_int (value_of key data) of Some n \<Rightarrow> n | None \<Rightarrow> 0) = t
                     then None else Some t)
          \<and> volume_update_state s'
              = (if volume_update_state s = 1 then 2 else volume_update_state s)
          \<and> (transport s \<noteq> None \<longrightarrow>
                sent s'
                  = sent s
                    @ (case volume_target s of
                         None \<Rightarrow> []
                       | Some t \<Rightarrow>
                           if t \<noteq> 0
                              \<and> (case py_int (value_of key data) of Some n \<Rightarrow> n | None \<Rightarrow> 0)
                                  \<noteq> t
                           then [wire_command
                                   (if (case py_int (value_of key data) of
                                          Some n \<Rightarrow> n | None \<Rightarrow> 0) < t
                                    then CMD_VOLUME_UP else CMD_VOLUME_DOWN) '''']
                           else [])
                    @ (if volume_update_state s = 1 then [wire_command CMD_VOLUME_UP '''']
                       else [])))"
proof -
  from assms(3) obtain l where l: "loop s = Some l" by auto
  define s1 where "s1 = store_value s key data"
  define s2 where "s2 = s1\<lparr>loop := Some (l\<lparr>ready := ready l
      @ (if power s1 \<and> \<not> poweron_refresh_successful s1 then [PoweronCallback] else [])\<rparr>)\<rparr>"
  have p: "poweron_update s1 = Done s2"
    unfolding s2_def by (rule poweron_update_shape) (simp add: s1_def store_value_frame l)
  have a2: "attrs s2 ''_volume'' = value_of key data"
    using assms(1) by (auto simp: s2_def s1_def store_value_frame)
  have pm: "parse_message s data = report (volume_update s2) data True True"
    using p by (simp add: parse_volume_message [OF assms(1,2)] s1_def and_then_def)
  have g: "get_integer s2 ATTR_VOLUME_UP
          = (case py_int (value_of key data) of Some n \<Rightarrow> n | None \<Rightarrow> 0)"
    by (simp add: get_integer_def get_attribute_value_def a2)
  from volume_message_effect [OF assms(1,2) l refl]
  obtain s' where s': "parse_message s data = Done s'"
    "attrs s' = (attrs s)(''_volume'' := value_of key data)"
    "volume_target s'
        = (case volume_target s of
             None \<Rightarrow> None
           | Some t \<Rightarrow>
               if t \<noteq> 0 \<and> (case py_int (value_of key data) of Some n \<Rightarrow> n | None \<Rightarrow> 0) = t
               then None else Some t)"
    "volume_update_state s' = (if volume_update_state s = 1 then 2 else volume_update_state s)"
    "transport s \<noteq> None \<longrightarrow>
          sent s'
            = sent s
              @ (case volume_target s of
                   None \<Rightarrow> []
                 | Some t \<Rightarrow>
                     if t \<noteq> 0
                        \<and> (case py_int (value_of key data) of Some n \<Rightarrow> n | None \<Rightarrow> 0) \<noteq> t
                     then [wire_command
                             (if (case py_int (value_of key data) of Some n \<Rightarrow> n | None \<Rightarrow> 0) < t
                              then CMD_VOLUME_UP else CMD_VOLUME_DOWN) '''']
                     else [])
              @ (if volume_update_state s = 1 then [wire_command CMD_VOLUME_UP ''''] else [])"
    by blast
  have "get_attribute_value s' ATTR_VOLUME_UP = value_of key data"
    "get_attribute_value s' ATTR_VOLUME_DOWN = value_of key data"
    "attenuation s' = (case py_int (value_of key data) of Some n \<Rightarrow> n | None \<Rightarrow> - 90)"
    by (simp_all add: attenuation_def get_attribute_value_def s'(2))
  then show ?thesis
    using p pm g s'(1,3,4,5) unfolding s1_def
    by (intro conjI exI [of _ s2] exI [of _ s']) simp_all
qed

text \<open>The witness: a target of \<open>-5\<close> is in flight and the message \<^verbatim>\<open>#6,03,-9\<close> is decoded; the
  nudge is Volume-Up, towards \<open>-5\<close> from the \<open>-9\<close> just stored.\<close>

theorem volume_keys_share_field_witness:
  "raised (parse_message seeking_minus_5 ''#6,03,-9'') = None
   \<and> get_attribute_value (result (parse_message seeking_minus_5 ''#6,03,-9'')) ATTR_VOLUME_UP
       = ''-9''
   \<and> attenuation (result (parse_message seeking_minus_5 ''#6,03,-9'')) = - 9
   \<and> volume_target (result (parse_message seeking_minus_5 ''#6,03,-9'')) = Some (- 5)
   \<and> sent (result (parse_message seeking_minus_5 ''#6,03,-9''))
       = [wire_command CMD_VOLUME_UP '''', wire_command CMD_VOLUME_UP '''']"
proof -
  have "startswith ''#6,03,-9'' (wire ATTR_VOLUME_DOWN)"
    by (simp add: startswith_def)
  from volume_keys_share_field [OF _ this seeking_minus_5_fields(1)]
  obtain s' where "parse_message seeking_minus_5 ''#6,03,-9'' = Done s'"
    "get_attribute_value s' ATTR_VOLUME_UP = value_of ATTR_VOLUME_DOWN ''#6,03,-9''"
    "attenuation s'
       = (case py_int (value_of ATTR_VOLUME_DOWN ''#6,03,-9'') of Some n \<Rightarrow> n | None \<Rightarrow> - 90)"
    "volume_target s' = Some (- 5)"
    "sent s' = [wire_command CMD_VOLUME_UP '''', wire_command CMD_VOLUME_UP '''']"
    using seeking_minus_5_fields(2)
    by (auto simp: seeking_minus_5_fields(3,4,5) value_of_def py_int_minus_9)
  then show ?thesis
    by (simp add: value_of_def py_int_minus_9 result_def raised_def)
qed


subsection \<open>The probe state\<close>

lemma result_and_then:
  "result (and_then r f) = (case r of Done s \<Rightarrow> result (f s) | Raised e s \<Rightarrow> s)"
  by (simp add: result_def and_then_def split: outcome.split)

lemma report_probe_state:
  "volume_update_state (result (report s data recognized newdata)) = volume_update_state s"
  by (simp add: report_def call_soon_def and_then_def log_to_def result_def split: option.split)

lemma poweron_update_probe_state:
  "poweron_update s = Done s' \<Longrightarrow> volume_update_state s' = volume_update_state s"
  "poweron_update s = Raised e s' \<Longrightarrow> volume_update_state s' = volume_update_state s"
  by (auto simp: poweron_update_def call_soon_def split: if_splits option.splits)

lemma lookup_loop_probe_state:
  "lookup_loop s data = (s1, r, n) \<Longrightarrow> volume_update_state s1 = volume_update_state s"
  by (auto simp: lookup_loop_def store_value_frame split: option.splits)

lemma volume_update_probe_state:
  "volume_update_state s \<noteq> 1 \<Longrightarrow> volume_update_state (volume_update s) = volume_update_state s"
  by (simp add: volume_update_def converge_def probe_answered_def send_command_frame
      split: option.split)

lemma parse_keeps_probe_state:
  assumes "volume_update_state s \<noteq> 1"
  shows "volume_update_state (result (parse_message s data)) = volume_update_state s"
proof -
  obtain s1 r n where ll: "lookup_loop s data = (s1, r, n)"
    by (cases "lookup_loop s data") auto
  have s1: "volume_update_state s1 = volume_update_state s"
    using ll by (rule lookup_loop_probe_state)
  have err: "volume_update_state (result (report (log_to WARNING s m []) data True False))
      = volume_update_state s" for m
    by (simp add: report_probe_state log_to_def)
  have main: "volume_update_state
      (result (and_then (poweron_update s1)
         (\<lambda>s2. if startswith data (wire ATTR_VOLUME_UP) \<or> startswith data (wire ATTR_VOLUME_DOWN)
                then report (volume_update s2) data True True
                else report s2 data r n)))
      = volume_update_state s"
  proof (cases "poweron_update s1")
    case (Done s2)
    with s1 have "volume_update_state s2 = volume_update_state s"
      using poweron_update_probe_state(1) by simp
    with assms Done show ?thesis
      by (simp add: report_probe_state and_then_def volume_update_probe_state)
  next
    case (Raised e s2)
    with s1 have "volume_update_state s2 = volume_update_state s"
      using poweron_update_probe_state(2) by simp
    with Raised show ?thesis
      by (simp add: and_then_def result_def)
  qed
  show ?thesis
    using err main by (simp add: parse_message_def ll)
qed

lemma refresh_volume_completed:
  assumes "volume_update_state s = 2"
  shows "raised (refresh_volume s tries) = None"
    "volume_update_state (result (refresh_volume s tries)) = 0"
    "sent (result (refresh_volume s tries)) = sent s"
    "timers (result (refresh_volume s tries)) = timers s"
  using assms
  by (simp_all add: refresh_volume_def refresh_idle_def refresh_requested_def
      refresh_completed_def and_then_def log_to_def raised_def result_def sent_def timers_def)

text \<open>A decode on a handler that has its loop returns, arms and disarms no timer, and
  changes the probe state only from Requested.\<close>

lemma report_keeps:
  assumes "loop s0 = Some l0" and "scheduled l0 = scheduled l"
  shows "\<exists>s' l'. report s0 data recognized newdata = Done s' \<and> loop s' = Some l'
    \<and> scheduled l' = scheduled l \<and> volume_update_state s' = volume_update_state s0"
proof -
  from report_frame [OF assms(1), of data recognized newdata]
  obtain s' where "report s0 data recognized newdata = Done s'"
    "loop s' = Some (l0\<lparr>ready := ready l0
       @ (if newdata \<and> update_callback s0 then [UpdateCallback data] else [])\<rparr>)"
    "volume_update_state s' = volume_update_state s0"
    by blast
  with assms(2) show ?thesis by simp
qed

lemma decode_frame:
  assumes "loop s = Some l"
  shows "\<exists>s' l'. parse_message s data = Done s' \<and> loop s' = Some l'
    \<and> scheduled l' = scheduled l
    \<and> (volume_update_state s \<noteq> 1 \<longrightarrow> volume_update_state s' = volume_update_state s)"
proof (cases "startswith data (wire ATTR_VOLUME_UP) \<or> startswith data (wire ATTR_VOLUME_DOWN)")
  case True
  then obtain key where key: "key = ATTR_VOLUME_UP \<or> key = ATTR_VOLUME_DOWN"
    "startswith data (wire key)"
    by blast
  from volume_message_effect [OF key assms refl]
  obtain s' l' where "parse_message s data = Done s'" "loop s' = Some l'"
    "scheduled l' = scheduled l"
    "volume_update_state s' = (if volume_update_state s = 1 then 2 else volume_update_state s)"
    by blast
  then show ?thesis by auto
next
  case False
  obtain s1 r n where ll: "lookup_loop s data = (s1, r, n)"
    by (cases "lookup_loop s data") auto
  have s1: "loop s1 = Some l" "volume_update_state s1 = volume_update_state s"
    using ll assms by (auto simp: lookup_loop_def store_value_frame split: option.splits)
  define s2 where "s2 = s1\<lparr>loop := Some (l\<lparr>ready := ready l
      @ (if power s1 \<and> \<not> poweron_refresh_successful s1 then [PoweronCallback] else [])\<rparr>)\<rparr>"
  have p: "poweron_update s1 = Done s2"
    unfolding s2_def by (rule poweron_update_shape) (rule s1(1))
  have e: "\<exists>s' l'. report (log_to WARNING s m []) data True False = Done s' \<and> loop s' = Some l'
      \<and> scheduled l' = scheduled l
      \<and> (volume_update_state s \<noteq> 1 \<longrightarrow> volume_update_state s' = volume_update_state s)" for m
    using report_keeps [of "log_to WARNING s m []" l l data True False] assms
    by (auto simp: log_to_def)
  have o: "\<exists>s' l'. report s2 data r n = Done s' \<and> loop s' = Some l'
      \<and> scheduled l' = scheduled l
      \<and> (volume_update_state s \<noteq> 1 \<longrightarrow> volume_update_state s' = volume_update_state s)"
    using report_keeps [of s2 _ l data r n] s1(2) by (auto simp: s2_def)
  show ?thesis
    using False e o by (simp add: parse_message_def ll p and_then_def)
qed

lemma decodes_keep_completed:
  assumes "loop s = Some l" and "volume_update_state s = 2"
  shows "\<exists>s' l'. run_events s (map Decoded ds) = Done s' \<and> loop s' = Some l'
    \<and> scheduled l' = scheduled l \<and> volume_update_state s' = 2"
  using assms
proof (induction ds arbitrary: s l)
  case Nil
  then show ?case by simp
next
  case (Cons d ds)
  from decode_frame [OF Cons.prems(1), of d] Cons.prems(2)
  obtain s1 l1 where s1: "parse_message s d = Done s1" "loop s1 = Some l1"
    "scheduled l1 = scheduled l" "volume_update_state s1 = 2"
    by auto
  from Cons.IH [OF s1(2,4)]
  obtain s' l' where "run_events s1 (map Decoded ds) = Done s'" "loop s' = Some l'"
    "scheduled l' = scheduled l1" "volume_update_state s' = 2"
    by blast
  with s1 show ?case
    by (simp add: and_then_def)
qed

text \<open>The retry timer fires on a probe that was answered: the COMPLETED block resets the
  state, nothing is sent, and the timer is not armed again.\<close>

lemma fire_timer_completed:
  assumes "loop s = Some l" and "scheduled l = (d, RefreshVolume k) # rest"
    and "volume_update_state s = 2"
  shows "\<exists>s'. fire_timer s = Done s' \<and> volume_update_state s' = 0 \<and> sent s' = sent s
    \<and> timers s' = rest"
  using assms
  by (simp add: fire_timer_def run_callback_def refresh_volume_def refresh_idle_def
      refresh_requested_def refresh_completed_def and_then_def log_to_def sent_def timers_def)

text \<open>With no timer armed, as after a probe that timed out, a timer fire does nothing: a
  state that was Completed stays so.\<close>

lemma fire_timer_none_armed: "timers s = [] \<Longrightarrow> fire_timer s = Done s"
  by (simp add: fire_timer_def timers_def split: option.splits list.splits)

text \<open>
  C4, amended. Decoding a VolumeUp or VolumeDown message while the probe state is
  Requested (1) sends the compensating Volume-Up command, after the convergence nudge
  when a target is in flight and differs from the observed value, and sets the state to
  Completed (2). No decode resets the state: whatever messages are decoded next, it stays
  Completed and the timers stay as they were. It is the retry timer that resets it: when
  a retry timer is armed and fires, \<^verbatim>\<open>_refresh_volume\<close> sets the state to Idle (0), sends
  nothing and arms no new timer.
\<close>

theorem probe_answer_completes:
  assumes "volume_update_state s = 1"
    and "key = ATTR_VOLUME_UP \<or> key = ATTR_VOLUME_DOWN"
    and "startswith data (wire key)"
    and "transport s \<noteq> None"
    and "loop s \<noteq> None"
  shows "\<exists>s'. parse_message s data = Done s'
    \<and> volume_update_state s' = 2
    \<and> sent s' = sent s
        @ (case volume_target s of
             None \<Rightarrow> []
           | Some t \<Rightarrow>
               if t \<noteq> 0 \<and> (case py_int (value_of key data) of Some n \<Rightarrow> n | None \<Rightarrow> 0) \<noteq> t
               then [wire_command
                       (if (case py_int (value_of key data) of Some n \<Rightarrow> n | None \<Rightarrow> 0) < t
                        then CMD_VOLUME_UP else CMD_VOLUME_DOWN) '''']
               else [])
        @ [wire_command CMD_VOLUME_UP '''']
    \<and> (\<forall>data'. volume_update_state (result (parse_message s' data')) = 2)
    \<and> (\<forall>tries. raised (refresh_volume s' tries) = None
          \<and> volume_update_state (result (refresh_volume s' tries)) = 0
          \<and> sent (result (refresh_volume s' tries)) = sent s')
    \<and> (\<forall>ds. \<exists>s2. run_events s' (map Decoded ds) = Done s2
          \<and> volume_update_state s2 = 2
          \<and> timers s2 = timers s
          \<and> (\<forall>k rest. timers s = (2, RefreshVolume k) # rest \<longrightarrow>
                (\<exists>s3. fire_timer s2 = Done s3 \<and> volume_update_state s3 = 0
                   \<and> sent s3 = sent s2 \<and> timers s3 = rest)))"
proof -
  from assms(5) obtain l where l: "loop s = Some l" by auto
  from volume_message_effect [OF assms(2,3) l refl]
  obtain s' l' where s': "parse_message s data = Done s'" "loop s' = Some l'"
    "scheduled l' = scheduled l" "volume_update_state s' = 2"
    "sent s' = sent s
        @ (case volume_target s of
             None \<Rightarrow> []
           | Some t \<Rightarrow>
               if t \<noteq> 0 \<and> (case py_int (value_of key data) of Some n \<Rightarrow> n | None \<Rightarrow> 0) \<noteq> t
               then [wire_command
                       (if (case py_int (value_of key data) of Some n \<Rightarrow> n | None \<Rightarrow> 0) < t
                        then CMD_VOLUME_UP else CMD_VOLUME_DOWN) '''']
               else [])
        @ [wire_command CMD_VOLUME_UP '''']"
    using assms(1,4) by auto
  have d: "\<forall>data'. volume_update_state (result (parse_message s' data')) = 2"
    using parse_keeps_probe_state [of s'] s'(4) by simp
  have r: "\<forall>tries. raised (refresh_volume s' tries) = None
          \<and> volume_update_state (result (refresh_volume s' tries)) = 0
          \<and> sent (result (refresh_volume s' tries)) = sent s'"
    using refresh_volume_completed [OF s'(4)] by simp
  have t: "\<forall>ds. \<exists>s2. run_events s' (map Decoded ds) = Done s2
          \<and> volume_update_state s2 = 2
          \<and> timers s2 = timers s
          \<and> (\<forall>k rest. timers s = (2, RefreshVolume k) # rest \<longrightarrow>
                (\<exists>s3. fire_timer s2 = Done s3 \<and> volume_update_state s3 = 0
                   \<and> sent s3 = sent s2 \<and> timers s3 = rest))"
  proof
    fix ds
    from decodes_keep_completed [OF s'(2,4), of ds]
    obtain s2 l2 where s2: "run_events s' (map Decoded ds) = Done s2" "loop s2 = Some l2"
      "scheduled l2 = scheduled l'" "volume_update_state s2 = 2"
      by blast
    have tm: "timers s2 = timers s"
      using s2(2,3) s'(3) l by (simp add: timers_def)
    have "\<exists>s3. fire_timer s2 = Done s3 \<and> volume_update_state s3 = 0
                   \<and> sent s3 = sent s2 \<and> timers s3 = rest"
      if "timers s = (2, RefreshVolume k) # rest" for k rest
    proof -
      from that have "scheduled l2 = (2, RefreshVolume k) # rest"
        using s2(3) s'(3) l by (simp add: timers_def)
      from fire_timer_completed [OF s2(2) this s2(4)] show ?thesis .
    qed
    with s2(1,4) tm
    show "\<exists>s2. run_events s' (map Decoded ds) = Done s2
          \<and> volume_update_state s2 = 2
          \<and> timers s2 = timers s
          \<and> (\<forall>k rest. timers s = (2, RefreshVolume k) # rest \<longrightarrow>
                (\<exists>s3. fire_timer s2 = Done s3 \<and> volume_update_state s3 = 0
                   \<and> sent s3 = sent s2 \<and> timers s3 = rest))"
      by blast
  qed
  show ?thesis
    by (intro exI [of _ s'] conjI) (fact s'(1) s'(4) s'(5) d r t)+
qed

section \<open>The power-on probe\<close>

text \<open>
  C4 as stated, at a concrete run: the probe is under way (state 1); the message
  \<^verbatim>\<open>#6,03,-40\<close> is decoded and the state becomes 2; the next message \<^verbatim>\<open>#6,03,-41\<close> is decoded,
  and the state is still 2, not reset to Idle (0) by that decode.
\<close>

theorem probe_reset_counterexample:
  "volume_update_state probing = 1
   \<and> raised (parse_message probing ''#6,03,-40'') = None
   \<and> volume_update_state (result (parse_message probing ''#6,03,-40'')) = 2
   \<and> raised (parse_message (result (parse_message probing ''#6,03,-40'')) ''#6,03,-41'') = None
   \<and> volume_update_state
        (result (parse_message (result (parse_message probing ''#6,03,-40'')) ''#6,03,-41''))
       = 2"
  by (simp add: probing_def connected_eq probe_defs handler_defs observe_defs text_eval)

lemma probing_fields:
  "volume_update_state probing = 1"
  "transport probing \<noteq> None"
  "loop probing \<noteq> None"
  "volume_target probing = None"
  "sent probing = [wire_command CMD_VOLUME_DOWN '''']"
  "timers probing = [(2, RefreshVolume 1)]"
  by (simp_all add: probing_def connected_eq probe_defs handler_defs observe_defs)

text \<open>The witness: the probe is under way with its retry timer armed; \<^verbatim>\<open>#6,03,-40\<close> answers
  it, \<^verbatim>\<open>#6,03,-41\<close> is decoded next and leaves the state Completed, and the timer fire
  resets it.\<close>

theorem probe_answer_completes_witness:
  "raised (parse_message probing ''#6,03,-40'') = None
   \<and> volume_update_state (result (parse_message probing ''#6,03,-40'')) = 2
   \<and> sent (result (parse_message probing ''#6,03,-40''))
       = [wire_command CMD_VOLUME_DOWN '''', wire_command CMD_VOLUME_UP '''']
   \<and> volume_update_state
        (result (run_events (result (parse_message probing ''#6,03,-40''))
                   [Decoded ''#6,03,-41''])) = 2
   \<and> raised (fire_timer
        (result (run_events (result (parse_message probing ''#6,03,-40''))
                   [Decoded ''#6,03,-41'']))) = None
   \<and> volume_update_state
        (result (fire_timer
           (result (run_events (result (parse_message probing ''#6,03,-40''))
                      [Decoded ''#6,03,-41''])))) = 0
   \<and> timers
        (result (fire_timer
           (result (run_events (result (parse_message probing ''#6,03,-40''))
                      [Decoded ''#6,03,-41''])))) = []"
proof -
  have "startswith ''#6,03,-40'' (wire ATTR_VOLUME_DOWN)"
    by (simp add: startswith_def)
  from probe_answer_completes [OF probing_fields(1) _ this probing_fields(2,3)]
  obtain s' where s': "parse_message probing ''#6,03,-40'' = Done s'"
    "volume_update_state s' = 2"
    "sent s' = sent probing @ [wire_command CMD_VOLUME_UP '''']"
    and t: "\<forall>ds. \<exists>s2. run_events s' (map Decoded ds) = Done s2
          \<and> volume_update_state s2 = 2
          \<and> timers s2 = timers probing
          \<and> (\<forall>k rest. timers probing = (2, RefreshVolume k) # rest \<longrightarrow>
                (\<exists>s3. fire_timer s2 = Done s3 \<and> volume_update_state s3 = 0
                   \<and> sent s3 = sent s2 \<and> timers s3 = rest))"
    by (auto simp: probing_fields(4))
  from t [rule_format, of "[''#6,03,-41'']"]
  obtain s2 where s2: "run_events s' [Decoded ''#6,03,-41''] = Done s2"
    "volume_update_state s2 = 2"
    and f: "\<forall>k rest. timers probing = (2, RefreshVolume k) # rest \<longrightarrow>
                (\<exists>s3. fire_timer s2 = Done s3 \<and> volume_update_state s3 = 0
                   \<and> sent s3 = sent s2 \<and> timers s3 = rest)"
    by auto
  from f [rule_format, OF probing_fields(6)]
  obtain s3 where "fire_timer s2 = Done s3" "volume_update_state s3 = 0" "timers s3 = []"
    by blast
  with s' s2 show ?thesis
    by (simp add: result_def raised_def probing_fields(5))
qed


section \<open>Framing across chunks\<close>

lemmas receive_defs =
  data_received_def assemble_buffer_def pause_reading_def resume_reading_def assembled_def

text \<open>Whenever \<^verbatim>\<open>data_received\<close> returns, the buffer is empty: no fragment is kept.\<close>

lemma buffer_never_retained:
  "data_received s data = Done s' \<Longrightarrow> buffer s' = ''''"
  by (auto simp: data_received_def assemble_buffer_def and_then_def pause_reading_def
      resume_reading_def split: option.splits outcome.splits)

text \<open>
  C1. A message split across the chunks \<^verbatim>\<open>"#6,01,"\<close> and \<^verbatim>\<open>"1\r"\<close> should reach the decoder
  once, whole. The code: the first chunk hands the fragment \<^verbatim>\<open>#6,01,\<close> to the decoder and
  empties the buffer; the second chunk hands it \<^verbatim>\<open>1\<close>. The power state stays the empty
  string and the power accessor is false, whereas the same message in one chunk turns the
  power on.
\<close>

theorem split_message_decoded_in_parts:
  "raised (data_received (connected False) ''#6,01,'') = None
   \<and> assembled half_message = [PyStr ''#6,01,'']
   \<and> buffer half_message = ''''
   \<and> raised (data_received half_message (''1'' @ [CR])) = None
   \<and> assembled (result (data_received half_message (''1'' @ [CR])))
       = [PyStr ''#6,01,'', PyStr ''1'']
   \<and> get_attribute_value (result (data_received half_message (''1'' @ [CR]))) ATTR_POWER_STATE
       = ''''
   \<and> \<not> power (result (data_received half_message (''1'' @ [CR])))
   \<and> power (result (data_received (connected False) (''#6,01,1'' @ [CR])))"
  by (simp add: half_message_def connected_eq receive_defs handler_defs observe_defs text_eval)


section \<open>Scheduling the power-on probe\<close>

text \<open>Once the flag is set no decode queues the power-on callback, and the flag stays set.\<close>

lemma report_queued:
  "set (queued (result (report s data recognized newdata)))
     \<subseteq> insert (UpdateCallback data) (set (queued s))"
  "poweron_refresh_successful (result (report s data recognized newdata))
     = poweron_refresh_successful s"
  by (auto simp: report_def call_soon_def and_then_def log_to_def result_def queued_def
      split: option.splits)

lemma lookup_loop_queued:
  assumes "lookup_loop s data = (s1, r, n)"
  shows "loop s1 = loop s" "poweron_refresh_successful s1 = poweron_refresh_successful s"
  using assms by (auto simp: lookup_loop_def store_value_frame split: option.splits)

lemma flag_stops_probe:
  assumes "poweron_refresh_successful s"
  shows "poweron_refresh_successful (result (parse_message s data))"
    and "set (queued (result (parse_message s data)))
           \<subseteq> insert (UpdateCallback data) (set (queued s))"
proof -
  obtain s1 r n where ll: "lookup_loop s data = (s1, r, n)"
    by (cases "lookup_loop s data") auto
  note s1 = lookup_loop_queued [OF ll]
  have p: "poweron_update s1 = Done s1"
    using assms s1 by (simp add: poweron_update_def)
  have q1: "queued s1 = queued s" "queued (volume_update s1) = queued s"
    using s1 by (simp_all add: queued_def volume_update_frame)
  have f1: "poweron_refresh_successful (volume_update s1)"
    using s1 assms by (simp add: volume_update_frame)
  have ql: "queued (log_to WARNING s m []) = queued s"
    "poweron_refresh_successful (log_to WARNING s m []) = poweron_refresh_successful s" for m
    by (simp_all add: log_to_def queued_def)
  show "poweron_refresh_successful (result (parse_message s data))"
    using assms s1 f1
    by (simp add: parse_message_def ll p and_then_def report_queued(2) ql)
  show "set (queued (result (parse_message s data)))
           \<subseteq> insert (UpdateCallback data) (set (queued s))"
    using report_queued(1) [of "log_to WARNING s _ []" data True False]
      report_queued(1) [of "volume_update s1" data True True]
      report_queued(1) [of s1 data r n]
    by (simp add: parse_message_def ll p and_then_def ql q1)
qed

text \<open>
  C3. The power-on probe should be scheduled once per connection. The code at one chunk
  that holds two PowerState=On messages: the power-on callback is queued twice, because the
  flag that guards it is set only when the callback runs, and the loop runs it after the
  whole chunk is decoded. Both callbacks then send Volume-Down and arm a retry timer.
\<close>

theorem power_on_probe_queued_twice:
  "raised (data_received (connected False) (''#6,01,1'' @ [CR] @ ''#6,01,1'' @ [CR])) = None
   \<and> queued power_burst = [PoweronCallback, PoweronCallback]
   \<and> raised (run_ready power_burst) = None
   \<and> raised (run_ready (result (run_ready power_burst))) = None
   \<and> sent (result (run_ready (result (run_ready power_burst))))
       = [wire_command CMD_VOLUME_DOWN '''', wire_command CMD_VOLUME_DOWN '''']
   \<and> timers (result (run_ready (result (run_ready power_burst))))
       = [(2, RefreshVolume 1), (2, RefreshVolume 1)]"
  by (simp add: power_burst_def connected_eq receive_defs handler_defs observe_defs text_eval
      probe_defs)


section \<open>Target convergence\<close>

text \<open>The setter and the volume update on a target other than 0.\<close>

lemma set_attenuation_nudges:
  assumes "- 90 \<le> t" and "t \<le> 0" and "t \<noteq> get_integer s ATTR_VOLUME_UP"
    and "transport s \<noteq> None"
  shows "volume_target (set_attenuation s (PyInt t)) = Some t"
    and "sent (set_attenuation s (PyInt t))
      = sent s @ [wire_command (if get_integer s ATTR_VOLUME_UP < t then CMD_VOLUME_UP
                                else CMD_VOLUME_DOWN) '''']"
  using assms
  by (auto simp: set_attenuation_def send_command_frame sent_def log_to_def)

lemma converge_nonzero_target:
  assumes "volume_target s = Some t" and "t \<noteq> 0" and "transport s \<noteq> None"
  shows "get_integer s ATTR_VOLUME_UP \<noteq> t \<Longrightarrow>
      sent (converge s)
        = sent s @ [wire_command (if get_integer s ATTR_VOLUME_UP < t then CMD_VOLUME_UP
                                  else CMD_VOLUME_DOWN) '''']
      \<and> volume_target (converge s) = Some t"
    and "get_integer s ATTR_VOLUME_UP = t \<Longrightarrow>
      sent (converge s) = sent s \<and> volume_target (converge s) = None"
  using assms
  by (auto simp: converge_def send_command_frame sent_def)

lemma converge_zero_target: "volume_target s = Some 0 \<Longrightarrow> converge s = s"
  by (simp add: converge_def)


text \<open>A decoded volume message pursues a target other than 0: one nudge towards it while
  the observed value differs, none and the target cleared when they are equal (the probe
  not being in state Requested, which adds its own command).\<close>

lemma volume_message_converges:
  assumes "key = ATTR_VOLUME_UP \<or> key = ATTR_VOLUME_DOWN"
    and "startswith data (wire key)"
    and "transport s \<noteq> None" and "loop s \<noteq> None"
    and "volume_target s = Some t" and "t \<noteq> 0"
    and "volume_update_state s \<noteq> 1"
    and "v = (case py_int (value_of key data) of Some n \<Rightarrow> n | None \<Rightarrow> 0)"
  shows "\<exists>s'. parse_message s data = Done s'
    \<and> (v \<noteq> t \<longrightarrow>
          sent s' = sent s @ [wire_command (if v < t then CMD_VOLUME_UP else CMD_VOLUME_DOWN) '''']
          \<and> volume_target s' = Some t)
    \<and> (v = t \<longrightarrow> sent s' = sent s \<and> volume_target s' = None)"
proof -
  from assms(4) obtain l where l: "loop s = Some l" by auto
  define s1 where "s1 = store_value s key data"
  define s2 where "s2 = s1\<lparr>loop := Some (l\<lparr>ready := ready l
      @ (if power s1 \<and> \<not> poweron_refresh_successful s1 then [PoweronCallback] else [])\<rparr>)\<rparr>"
  have p: "poweron_update s1 = Done s2"
    unfolding s2_def by (rule poweron_update_shape) (simp add: s1_def store_value_frame l)
  have a2: "attrs s2 ''_volume'' = value_of key data"
    using assms(1) by (auto simp: s2_def s1_def store_value_frame)
  have f2: "volume_update_state s2 \<noteq> 1" "transport s2 = transport s" "volume_target s2 = Some t"
    by (simp_all add: s2_def s1_def store_value_frame assms(5,7))
  have g: "get_integer s2 ATTR_VOLUME_UP = v"
    by (simp add: get_integer_def get_attribute_value_def a2 assms(8))
  have vu: "volume_update s2 = converge s2"
    using f2(1) by (simp add: volume_update_def probe_answered_def converge_def send_command_frame
        split: option.split)
  have tr: "transport s2 \<noteq> None"
    using f2(2) assms(3) by simp
  have "loop (volume_update s2) \<noteq> None"
    by (simp add: volume_update_frame s2_def)
  then obtain l' where l': "loop (volume_update s2) = Some l'" by auto
  from report_frame [OF l', of data True True]
  obtain s' where r: "report (volume_update s2) data True True = Done s'"
    and t': "transport s' = transport (volume_update s2)"
    and g': "volume_target s' = volume_target (volume_update s2)"
    by blast
  have pm: "parse_message s data = Done s'"
    using p r by (simp add: parse_volume_message [OF assms(1,2)] s1_def and_then_def)
  have s: "sent s' = sent (converge s2)" "sent s2 = sent s"
    using t' f2(2) by (simp_all add: sent_def vu)
  show ?thesis
    using pm s g g' converge_nonzero_target [OF f2(3) assms(6) tr]
    by (auto simp: vu)
qed

text \<open>
  C2. A target set with the attenuation setter should be pursued by one nudge for every
  observed volume that differs from it, and cleared when the volume equals it. The code at
  the target 0 on a handler that has observed \<open>-10\<close>: the setter sends Volume-Up and stores
  the target; the observed volume \<open>-9\<close> then sends nothing, and the observed volume 0 does
  not clear the target. The same run with the target \<open>-5\<close> does send the second nudge.
\<close>

theorem zero_target_not_pursued:
  "get_integer at_minus_10 ATTR_VOLUME_UP = - 10
   \<and> volume_target (set_attenuation at_minus_10 (PyInt 0)) = Some 0
   \<and> sent (set_attenuation at_minus_10 (PyInt 0)) = [wire_command CMD_VOLUME_UP '''']
   \<and> raised (parse_message (set_attenuation at_minus_10 (PyInt 0)) ''#6,02,-9'') = None
   \<and> sent (result (parse_message (set_attenuation at_minus_10 (PyInt 0)) ''#6,02,-9''))
       = [wire_command CMD_VOLUME_UP '''']
   \<and> volume_target
        (result (parse_message
           (result (parse_message (set_attenuation at_minus_10 (PyInt 0)) ''#6,02,-9''))
           ''#6,02,0''))
       = Some 0
   \<and> sent (result (parse_message (set_attenuation at_minus_10 (PyInt (- 5))) ''#6,02,-9''))
       = [wire_command CMD_VOLUME_UP '''', wire_command CMD_VOLUME_UP '''']"
  by (simp add: at_minus_10_def connected_eq set_attenuation_def handler_defs observe_defs
      text_eval str_def digits.simps)


section \<open>The retry timer\<close>

text \<open>\<open>probe_after s j\<close>: a single probe is under way and its timer has fired \<open>j\<close> times. The
  flag is set, so no decode queues the power-on callback again, and the loop has only
  callbacks of the caller left to run.\<close>

lemma fire_timer_after:
  assumes "probe_after s j"
  shows "\<exists>s'. fire_timer s = Done s' \<and> probe_after s' (Suc j)
    \<and> sent s' = sent s @ (if j < 9 then [wire_command CMD_VOLUME_DOWN ''''] else [])
    \<and> timeouts s' = timeouts s + (if j = 9 then 1 else 0)"
proof -
  from assms obtain l t where lt: "loop s = Some l" "transport s = Some t"
    "volume_update_state s = 1" "poweron_refresh_successful s"
    "list_all external (ready l)"
    "scheduled l = (if j < 10 then [(2, RefreshVolume (int j + 1))] else [])"
    by (auto simp: probe_after_def timers_def queued_def)
  consider "j < 9" | "j = 9" | "10 \<le> j" by linarith
  then show ?thesis
  proof cases
    case 1
    with lt show ?thesis
      by (simp add: probe_after_def probe_defs send_command_def call_later_def log_to_def
          and_then_def observe_defs timeouts_def)
  next
    case 2
    with lt show ?thesis
      by (simp add: probe_after_def probe_defs log_to_def and_then_def observe_defs timeouts_def)
  next
    case 3
    with lt show ?thesis
      by (simp add: probe_after_def fire_timer_def observe_defs timeouts_def)
  qed
qed

lemma run_ready_after:
  assumes "probe_after s j"
  shows "\<exists>s'. run_ready s = Done s' \<and> probe_after s' j
    \<and> sent s' = sent s \<and> timeouts s' = timeouts s"
proof -
  from assms obtain l where l: "loop s = Some l" "list_all external (ready l)"
    by (auto simp: probe_after_def queued_def)
  show ?thesis
  proof (cases "ready l")
    case Nil
    with l assms show ?thesis
      by (simp add: run_ready_def)
  next
    case (Cons cb rest)
    with l have "external cb" "list_all external rest" by simp_all
    with l Cons assms show ?thesis
      by (cases cb)
        (simp_all add: run_ready_def run_callback_def external_def probe_after_def
          observe_defs timeouts_def)
  qed
qed

lemma report_warnings:
  "warnings (result (report s data recognized newdata)) = warnings s"
  by (simp add: report_def call_soon_def and_then_def log_to_def result_def warnings_def
      split: option.split)

lemma store_value_warnings: "warnings (store_value s key data) = warnings s"
  by (simp add: store_value_def set_attribute_value_def log_to_def warnings_def
      split: option.split)

lemma decode_other_after:
  assumes "probe_after s j"
    and "\<not> startswith data (wire ATTR_VOLUME_UP)" "\<not> startswith data (wire ATTR_VOLUME_DOWN)"
  shows "\<exists>s'. parse_message s data = Done s' \<and> probe_after s' j
    \<and> sent s' = sent s \<and> timeouts s' = timeouts s"
proof -
  from assms(1) obtain l where l: "loop s = Some l" and flag: "poweron_refresh_successful s"
    and q: "list_all external (ready l)"
    by (auto simp: probe_after_def queued_def)
  obtain s1 r n where ll: "lookup_loop s data = (s1, r, n)"
    by (cases "lookup_loop s data") auto
  have s1: "loop s1 = Some l" "poweron_refresh_successful s1"
    "transport s1 = transport s" "volume_update_state s1 = volume_update_state s"
    "warnings s1 = warnings s"
    using ll l flag
    by (auto simp: lookup_loop_def store_value_frame store_value_warnings split: option.splits)
  have p: "poweron_update s1 = Done s1"
    using s1 by (simp add: poweron_update_def)
  have keep: "\<exists>s'. report s0 data r0 n0 = Done s' \<and> probe_after s' j
      \<and> sent s' = sent s \<and> timeouts s' = timeouts s"
    if "loop s0 = Some l" "poweron_refresh_successful s0" "transport s0 = transport s"
      "volume_update_state s0 = volume_update_state s"
      "timeouts s0 = timeouts s" for s0 r0 n0
  proof -
    from report_frame [OF that(1), of data r0 n0]
    obtain s' where s': "report s0 data r0 n0 = Done s'"
      "loop s' = Some (l\<lparr>ready := ready l
         @ (if n0 \<and> update_callback s0 then [UpdateCallback data] else [])\<rparr>)"
      "transport s' = transport s0" "volume_update_state s' = volume_update_state s0"
      "poweron_refresh_successful s' = poweron_refresh_successful s0"
      by blast
    have "warnings s' = warnings s0"
      using report_warnings [of s0 data r0 n0] s'(1) by (simp add: result_def)
    with s' that assms(1) l q show ?thesis
      by (simp add: probe_after_def timers_def queued_def sent_def timeouts_def external_def)
  qed
  have e: "\<exists>s'. report (log_to WARNING s m []) data True False = Done s' \<and> probe_after s' j
      \<and> sent s' = sent s \<and> timeouts s' = timeouts s"
    if "m \<noteq> ''Refresh Volume timed out!''" for m
    using that l flag
    by (intro keep) (simp_all add: log_to_def timeouts_def warnings_def)
  have o: "\<exists>s'. report s1 data r n = Done s' \<and> probe_after s' j
      \<and> sent s' = sent s \<and> timeouts s' = timeouts s"
    using s1 by (intro keep) (simp_all add: timeouts_def)
  show ?thesis
    using assms(2,3) e o by (simp add: parse_message_def ll p and_then_def)
qed

lemma run_events_after:
  assumes "probe_after s j"
    and "\<forall>d. Decoded d \<in> set es \<longrightarrow>
           \<not> startswith d (wire ATTR_VOLUME_UP) \<and> \<not> startswith d (wire ATTR_VOLUME_DOWN)"
  shows "\<exists>s'. run_events s es = Done s' \<and> probe_after s' (j + fires es)
    \<and> sent s' = sent s
        @ replicate (min (j + fires es) 9 - min j 9) (wire_command CMD_VOLUME_DOWN '''')
    \<and> timeouts s' = timeouts s + (if j < 10 \<and> 10 \<le> j + fires es then 1 else 0)"
  using assms
proof (induction es arbitrary: s j)
  case Nil
  then show ?case by (simp add: fires_def)
next
  case (Cons e es)
  show ?case
  proof (cases e)
    case CallbackRuns
    from run_ready_after [OF Cons.prems(1)]
    obtain s1 where s1: "run_ready s = Done s1" "probe_after s1 j"
      "sent s1 = sent s" "timeouts s1 = timeouts s"
      by blast
    from Cons.IH [OF s1(2)] Cons.prems(2)
    obtain s' where s': "run_events s1 es = Done s'" "probe_after s' (j + fires es)"
      "sent s' = sent s1
         @ replicate (min (j + fires es) 9 - min j 9) (wire_command CMD_VOLUME_DOWN '''')"
      "timeouts s' = timeouts s1 + (if j < 10 \<and> 10 \<le> j + fires es then 1 else 0)"
      by auto
    have f: "fires (CallbackRuns # es) = fires es"
      by (simp add: fires_def)
    show ?thesis
      unfolding CallbackRuns using s1 s' by (simp add: and_then_def f)
  next
    case TimerFires
    from fire_timer_after [OF Cons.prems(1)]
    obtain s1 where s1: "fire_timer s = Done s1" "probe_after s1 (Suc j)"
      "sent s1 = sent s @ (if j < 9 then [wire_command CMD_VOLUME_DOWN ''''] else [])"
      "timeouts s1 = timeouts s + (if j = 9 then 1 else 0)"
      by blast
    from Cons.IH [OF s1(2)] Cons.prems(2)
    obtain s' where s': "run_events s1 es = Done s'" "probe_after s' (Suc j + fires es)"
      "sent s' = sent s1
         @ replicate (min (Suc j + fires es) 9 - min (Suc j) 9) (wire_command CMD_VOLUME_DOWN '''')"
      "timeouts s' = timeouts s1 + (if Suc j < 10 \<and> 10 \<le> Suc j + fires es then 1 else 0)"
      by auto
    have f: "fires (TimerFires # es) = Suc (fires es)"
      by (simp add: fires_def)
    have r: "(if j < 9 then [wire_command CMD_VOLUME_DOWN ''''] else [])
        @ replicate (min (Suc j + fires es) 9 - min (Suc j) 9) (wire_command CMD_VOLUME_DOWN '''')
      = replicate (min (j + Suc (fires es)) 9 - min j 9) (wire_command CMD_VOLUME_DOWN '''')"
    proof (cases "j < 9")
      case True
      then have "min (j + Suc (fires es)) 9 - min j 9
          = Suc (min (Suc j + fires es) 9 - min (Suc j) 9)"
        by (auto simp: min_def)
      with True show ?thesis by simp
    next
      case False
      then show ?thesis by (simp add: min_def)
    qed
    have "run_events s (TimerFires # es) = Done s'"
      using s1(1) s'(1) by (simp add: and_then_def)
    moreover have "probe_after s' (j + fires (TimerFires # es))"
      using s'(2) by (simp add: f)
    moreover have "sent s' = sent s
        @ replicate (min (j + fires (TimerFires # es)) 9 - min j 9)
            (wire_command CMD_VOLUME_DOWN '''')"
      using s1(3) s'(3) r by (simp add: f)
    moreover have "timeouts s' = timeouts s
        + (if j < 10 \<and> 10 \<le> j + fires (TimerFires # es) then 1 else 0)"
      using s1(4) s'(4) by (auto simp: f)
    ultimately show ?thesis
      unfolding TimerFires by blast
  next
    case (Decoded d)
    with Cons.prems(2) have nv: "\<not> startswith d (wire ATTR_VOLUME_UP)"
      "\<not> startswith d (wire ATTR_VOLUME_DOWN)"
      by auto
    from decode_other_after [OF Cons.prems(1) nv]
    obtain s1 where s1: "parse_message s d = Done s1" "probe_after s1 j"
      "sent s1 = sent s" "timeouts s1 = timeouts s"
      by blast
    from Cons.IH [OF s1(2)] Cons.prems(2)
    obtain s' where s': "run_events s1 es = Done s'" "probe_after s' (j + fires es)"
      "sent s' = sent s1
         @ replicate (min (j + fires es) 9 - min j 9) (wire_command CMD_VOLUME_DOWN '''')"
      "timeouts s' = timeouts s1 + (if j < 10 \<and> 10 \<le> j + fires es then 1 else 0)"
      by auto
    have f: "fires (Decoded d # es) = fires es"
      by (simp add: fires_def)
    show ?thesis
      unfolding Decoded using s1 s' by (simp add: and_then_def f)
  qed
qed

text \<open>The loop runs the power-on callback that a decode queued.\<close>

lemma queued_poweron_callback_starts:
  assumes "volume_update_state s = 0" and "transport s \<noteq> None"
    and "queued s = PoweronCallback # q" and "list_all external q"
    and "timers s = []"
  shows "\<exists>s'. run_ready s = Done s' \<and> probe_after s' 0
    \<and> sent s' = sent s @ [wire_command CMD_VOLUME_DOWN '''']
    \<and> timeouts s' = timeouts s"
proof -
  from assms(3) obtain l where l: "loop s = Some l" "ready l = PoweronCallback # q"
    by (auto simp: queued_def split: option.splits)
  from assms(2) obtain t where "transport s = Some t" by auto
  with l assms(1,4,5) show ?thesis
    by (simp add: probe_after_def probe_defs send_command_def call_later_def log_to_def
        and_then_def observe_defs timeouts_def)
qed

text \<open>When the power-on callback was queued once: the loop runs it on an idle, connected
  handler, and then, in any order, runs callbacks of the caller, fires timers and decodes
  messages none of which is a VolumeUp or VolumeDown message. Nothing is raised, and the
  Volume-Down commands written are one for the start and one for each of the first nine
  fires, \<open>min (fires + 1) 10\<close> in all. The tenth fire logs the timeout warning, once, and
  arms no further timer.\<close>

lemma single_probe_gives_up_after_ten:
  assumes "volume_update_state s = 0" and "transport s \<noteq> None"
    and "queued s = PoweronCallback # q" and "list_all external q"
    and "timers s = []"
    and "\<forall>d. Decoded d \<in> set es \<longrightarrow>
           \<not> startswith d (wire ATTR_VOLUME_UP) \<and> \<not> startswith d (wire ATTR_VOLUME_DOWN)"
  shows "\<exists>s'. run_events s (CallbackRuns # es) = Done s'
    \<and> sent s' = sent s @ replicate (min (Suc (fires es)) 10) (wire_command CMD_VOLUME_DOWN '''')
    \<and> timeouts s' = timeouts s + (if 10 \<le> fires es then 1 else 0)
    \<and> timers s' = (if 10 \<le> fires es then [] else [(2, RefreshVolume (int (fires es) + 1))])
    \<and> volume_update_state s' = 1"
proof -
  from queued_poweron_callback_starts [OF assms(1-5)]
  obtain s1 where s1: "run_ready s = Done s1" "probe_after s1 0"
    "sent s1 = sent s @ [wire_command CMD_VOLUME_DOWN '''']" "timeouts s1 = timeouts s"
    by auto
  from run_events_after [OF s1(2) assms(6)]
  obtain s' where s': "run_events s1 es = Done s'" "probe_after s' (fires es)"
    "sent s' = sent s1 @ replicate (min (fires es) 9) (wire_command CMD_VOLUME_DOWN '''')"
    "timeouts s' = timeouts s1 + (if 10 \<le> fires es then 1 else 0)"
    by auto
  have m: "min (Suc (fires es)) 10 = Suc (min (fires es) 9)" by simp
  show ?thesis
    using s1 s' by (auto simp: and_then_def m probe_after_def)
qed


subsection \<open>Two probes at once\<close>

lemma replicate_20_fires:
  "replicate 20 TimerFires = [TimerFires, TimerFires, TimerFires, TimerFires, TimerFires,
     TimerFires, TimerFires, TimerFires, TimerFires, TimerFires, TimerFires, TimerFires,
     TimerFires, TimerFires, TimerFires, TimerFires, TimerFires, TimerFires, TimerFires,
     TimerFires]"
  by (simp add: eval_nat_numeral)

text \<open>
  C5. A power-on probe that observes no VolumeUp or VolumeDown message should send at most
  10 Volume-Down commands in total and then give up with one logged warning. The code
  after the chunk \<^verbatim>\<open>b"#6,01,1\r#6,11,00\r"\<close> (power on, then mute off): both messages are
  decoded while the power is on and the flag is unset, so the power-on callback is queued
  twice. The loop runs both callbacks, each sends Volume-Down and arms its own retry
  timer, and the two chains of timers run side by side. With no volume message observed,
  the twenty timer fires that follow bring the total to 20 Volume-Down commands and two
  timeout warnings. Nothing is raised, and no timer is left armed.
\<close>

theorem two_probes_send_twenty:
  "queued power_and_mute = [PoweronCallback, PoweronCallback]
   \<and> raised (run_events power_and_mute
        (CallbackRuns # CallbackRuns # replicate 20 TimerFires)) = None
   \<and> sent (result (run_events power_and_mute
        (CallbackRuns # CallbackRuns # replicate 20 TimerFires)))
       = replicate 20 (wire_command CMD_VOLUME_DOWN '''')
   \<and> timeouts (result (run_events power_and_mute
        (CallbackRuns # CallbackRuns # replicate 20 TimerFires))) = 2
   \<and> timers (result (run_events power_and_mute
        (CallbackRuns # CallbackRuns # replicate 20 TimerFires))) = []"
proof -
  have q: "queued power_and_mute = [PoweronCallback, PoweronCallback]"
    by (simp add: power_and_mute_def connected_eq receive_defs handler_defs observe_defs
        text_eval)
  have r: "case run_events power_and_mute
        (CallbackRuns # CallbackRuns # replicate 20 TimerFires) of
      Done s' \<Rightarrow> sent s' = replicate 20 (wire_command CMD_VOLUME_DOWN '''')
        \<and> timeouts s' = 2 \<and> timers s' = []
    | Raised e s' \<Rightarrow> False"
    unfolding replicate_20_fires
    by (simp add: power_and_mute_def connected_eq receive_defs handler_defs observe_defs
        text_eval probe_defs timeouts_def eval_nat_numeral)
  from q r show ?thesis
    by (simp add: result_def raised_def split: outcome.splits)
qed


section \<open>The conversion round trip\<close>

text \<open>The two conversions on the ranges of the claim, each value computed with the
  floating-point operations of the code.\<close>

lemma volume_to_attenuation_values_1:
  "volume_to_attenuation (PyInt 0) = Inr (- 90)"
  "volume_to_attenuation (PyInt 1) = Inr (- 89)"
  "volume_to_attenuation (PyInt 2) = Inr (- 88)"
  "volume_to_attenuation (PyInt 3) = Inr (- 87)"
  "volume_to_attenuation (PyInt 4) = Inr (- 86)"
  "volume_to_attenuation (PyInt 5) = Inr (- 86)"
  "volume_to_attenuation (PyInt 6) = Inr (- 85)"
  "volume_to_attenuation (PyInt 7) = Inr (- 84)"
  "volume_to_attenuation (PyInt 8) = Inr (- 83)"
  "volume_to_attenuation (PyInt 9) = Inr (- 82)"
  "volume_to_attenuation (PyInt 10) = Inr (- 81)"
  "volume_to_attenuation (PyInt 11) = Inr (- 80)"
  "volume_to_attenuation (PyInt 12) = Inr (- 79)"
  "volume_to_attenuation (PyInt 13) = Inr (- 78)"
  "volume_to_attenuation (PyInt 14) = Inr (- 77)"
  "volume_to_attenuation (PyInt 15) = Inr (- 76)"
  "volume_to_attenuation (PyInt 16) = Inr (- 76)"
  "volume_to_attenuation (PyInt 17) = Inr (- 75)"
  "volume_to_attenuation (PyInt 18) = Inr (- 74)"
  "volume_to_attenuation (PyInt 19) = Inr (- 73)"
  "volume_to_attenuation (PyInt 20) = Inr (- 72)"
  "volume_to_attenuation (PyInt 21) = Inr (- 71)"
  "volume_to_attenuation (PyInt 22) = Inr (- 70)"
  "volume_to_attenuation (PyInt 23) = Inr (- 69)"
  "volume_to_attenuation (PyInt 24) = Inr (- 68)"
  "volume_to_attenuation (PyInt 25) = Inr (- 68)"
  by (simp_all add: float_eval split del: if_split)

lemma volume_to_attenuation_values_2:
  "volume_to_attenuation (PyInt 26) = Inr (- 67)"
  "volume_to_attenuation (PyInt 27) = Inr (- 66)"
  "volume_to_attenuation (PyInt 28) = Inr (- 65)"
  "volume_to_attenuation (PyInt 29) = Inr (- 64)"
  "volume_to_attenuation (PyInt 30) = Inr (- 63)"
  "volume_to_attenuation (PyInt 31) = Inr (- 62)"
  "volume_to_attenuation (PyInt 32) = Inr (- 61)"
  "volume_to_attenuation (PyInt 33) = Inr (- 60)"
  "volume_to_attenuation (PyInt 34) = Inr (- 59)"
  "volume_to_attenuation (PyInt 35) = Inr (- 59)"
  "volume_to_attenuation (PyInt 36) = Inr (- 58)"
  "volume_to_attenuation (PyInt 37) = Inr (- 57)"
  "volume_to_attenuation (PyInt 38) = Inr (- 56)"
  "volume_to_attenuation (PyInt 39) = Inr (- 55)"
  "volume_to_attenuation (PyInt 40) = Inr (- 54)"
  "volume_to_attenuation (PyInt 41) = Inr (- 53)"
  "volume_to_attenuation (PyInt 42) = Inr (- 52)"
  "volume_to_attenuation (PyInt 43) = Inr (- 51)"
  "volume_to_attenuation (PyInt 44) = Inr (- 50)"
  "volume_to_attenuation (PyInt 45) = Inr (- 50)"
  "volume_to_attenuation (PyInt 46) = Inr (- 49)"
  "volume_to_attenuation (PyInt 47) = Inr (- 48)"
  "volume_to_attenuation (PyInt 48) = Inr (- 47)"
  "volume_to_attenuation (PyInt 49) = Inr (- 46)"
  "volume_to_attenuation (PyInt 50) = Inr (- 45)"
  "volume_to_attenuation (PyInt 51) = Inr (- 44)"
  by (simp_all add: float_eval split del: if_split)

lemma volume_to_attenuation_values_3:
  "volume_to_attenuation (PyInt 52) = Inr (- 43)"
  "volume_to_attenuation (PyInt 53) = Inr (- 42)"
  "volume_to_attenuation (PyInt 54) = Inr (- 41)"
  "volume_to_attenuation (PyInt 55) = Inr (- 40)"
  "volume_to_attenuation (PyInt 56) = Inr (- 40)"
  "volume_to_attenuation (PyInt 57) = Inr (- 39)"
  "volume_to_attenuation (PyInt 58) = Inr (- 38)"
  "volume_to_attenuation (PyInt 59) = Inr (- 37)"
  "volume_to_attenuation (PyInt 60) = Inr (- 36)"
  "volume_to_attenuation (PyInt 61) = Inr (- 35)"
  "volume_to_attenuation (PyInt 62) = Inr (- 34)"
  "volume_to_attenuation (PyInt 63) = Inr (- 33)"
  "volume_to_attenuation (PyInt 64) = Inr (- 32)"
  "volume_to_attenuation (PyInt 65) = Inr (- 32)"
  "volume_to_attenuation (PyInt 66) = Inr (- 31)"
  "volume_to_attenuation (PyInt 67) = Inr (- 30)"
  "volume_to_attenuation (PyInt 68) = Inr (- 29)"
  "volume_to_attenuation (PyInt 69) = Inr (- 28)"
  "volume_to_attenuation (PyInt 70) = Inr (- 27)"
  "volume_to_attenuation (PyInt 71) = Inr (- 26)"
  "volume_to_attenuation (PyInt 72) = Inr (- 25)"
  "volume_to_attenuation (PyInt 73) = Inr (- 24)"
  "volume_to_attenuation (PyInt 74) = Inr (- 23)"
  "volume_to_attenuation (PyInt 75) = Inr (- 22)"
  "volume_to_attenuation (PyInt 76) = Inr (- 22)"
  "volume_to_attenuation (PyInt 77) = Inr (- 21)"
  by (simp_all add: float_eval split del: if_split)

lemma volume_to_attenuation_values_4:
  "volume_to_attenuation (PyInt 78) = Inr (- 20)"
  "volume_to_attenuation (PyInt 79) = Inr (- 19)"
  "volume_to_attenuation (PyInt 80) = Inr (- 18)"
  "volume_to_attenuation (PyInt 81) = Inr (- 17)"
  "volume_to_attenuation (PyInt 82) = Inr (- 16)"
  "volume_to_attenuation (PyInt 83) = Inr (- 15)"
  "volume_to_attenuation (PyInt 84) = Inr (- 14)"
  "volume_to_attenuation (PyInt 85) = Inr (- 14)"
  "volume_to_attenuation (PyInt 86) = Inr (- 13)"
  "volume_to_attenuation (PyInt 87) = Inr (- 12)"
  "volume_to_attenuation (PyInt 88) = Inr (- 11)"
  "volume_to_attenuation (PyInt 89) = Inr (- 10)"
  "volume_to_attenuation (PyInt 90) = Inr (- 9)"
  "volume_to_attenuation (PyInt 91) = Inr (- 8)"
  "volume_to_attenuation (PyInt 92) = Inr (- 7)"
  "volume_to_attenuation (PyInt 93) = Inr (- 6)"
  "volume_to_attenuation (PyInt 94) = Inr (- 5)"
  "volume_to_attenuation (PyInt 95) = Inr (- 4)"
  "volume_to_attenuation (PyInt 96) = Inr (- 4)"
  "volume_to_attenuation (PyInt 97) = Inr (- 3)"
  "volume_to_attenuation (PyInt 98) = Inr (- 2)"
  "volume_to_attenuation (PyInt 99) = Inr (- 1)"
  "volume_to_attenuation (PyInt 100) = Inr 0"
  by (simp_all add: float_eval split del: if_split)

lemma attenuation_to_volume_values_1:
  "attenuation_to_volume (PyInt (- 90)) = Inr 0"
  "attenuation_to_volume (PyInt (- 89)) = Inr 1"
  "attenuation_to_volume (PyInt (- 88)) = Inr 2"
  "attenuation_to_volume (PyInt (- 87)) = Inr 3"
  "attenuation_to_volume (PyInt (- 86)) = Inr 4"
  "attenuation_to_volume (PyInt (- 85)) = Inr 6"
  "attenuation_to_volume (PyInt (- 84)) = Inr 7"
  "attenuation_to_volume (PyInt (- 83)) = Inr 8"
  "attenuation_to_volume (PyInt (- 82)) = Inr 9"
  "attenuation_to_volume (PyInt (- 81)) = Inr 10"
  "attenuation_to_volume (PyInt (- 80)) = Inr 11"
  "attenuation_to_volume (PyInt (- 79)) = Inr 12"
  "attenuation_to_volume (PyInt (- 78)) = Inr 13"
  "attenuation_to_volume (PyInt (- 77)) = Inr 14"
  "attenuation_to_volume (PyInt (- 76)) = Inr 16"
  "attenuation_to_volume (PyInt (- 75)) = Inr 17"
  "attenuation_to_volume (PyInt (- 74)) = Inr 18"
  "attenuation_to_volume (PyInt (- 73)) = Inr 19"
  "attenuation_to_volume (PyInt (- 72)) = Inr 20"
  "attenuation_to_volume (PyInt (- 71)) = Inr 21"
  "attenuation_to_volume (PyInt (- 70)) = Inr 22"
  "attenuation_to_volume (PyInt (- 69)) = Inr 23"
  "attenuation_to_volume (PyInt (- 68)) = Inr 24"
  by (simp_all add: float_eval split del: if_split)

lemma attenuation_to_volume_values_2:
  "attenuation_to_volume (PyInt (- 67)) = Inr 26"
  "attenuation_to_volume (PyInt (- 66)) = Inr 27"
  "attenuation_to_volume (PyInt (- 65)) = Inr 28"
  "attenuation_to_volume (PyInt (- 64)) = Inr 29"
  "attenuation_to_volume (PyInt (- 63)) = Inr 30"
  "attenuation_to_volume (PyInt (- 62)) = Inr 31"
  "attenuation_to_volume (PyInt (- 61)) = Inr 32"
  "attenuation_to_volume (PyInt (- 60)) = Inr 33"
  "attenuation_to_volume (PyInt (- 59)) = Inr 34"
  "attenuation_to_volume (PyInt (- 58)) = Inr 36"
  "attenuation_to_volume (PyInt (- 57)) = Inr 37"
  "attenuation_to_volume (PyInt (- 56)) = Inr 38"
  "attenuation_to_volume (PyInt (- 55)) = Inr 39"
  "attenuation_to_volume (PyInt (- 54)) = Inr 40"
  "attenuation_to_volume (PyInt (- 53)) = Inr 41"
  "attenuation_to_volume (PyInt (- 52)) = Inr 42"
  "attenuation_to_volume (PyInt (- 51)) = Inr 43"
  "attenuation_to_volume (PyInt (- 50)) = Inr 44"
  "attenuation_to_volume (PyInt (- 49)) = Inr 46"
  "attenuation_to_volume (PyInt (- 48)) = Inr 47"
  "attenuation_to_volume (PyInt (- 47)) = Inr 48"
  "attenuation_to_volume (PyInt (- 46)) = Inr 49"
  "attenuation_to_volume (PyInt (- 45)) = Inr 50"
  by (simp_all add: float_eval split del: if_split)

lemma attenuation_to_volume_values_3:
  "attenuation_to_volume (PyInt (- 44)) = Inr 51"
  "attenuation_to_volume (PyInt (- 43)) = Inr 52"
  "attenuation_to_volume (PyInt (- 42)) = Inr 53"
  "attenuation_to_volume (PyInt (- 41)) = Inr 54"
  "attenuation_to_volume (PyInt (- 40)) = Inr 56"
  "attenuation_to_volume (PyInt (- 39)) = Inr 57"
  "attenuation_to_volume (PyInt (- 38)) = Inr 58"
  "attenuation_to_volume (PyInt (- 37)) = Inr 59"
  "attenuation_to_volume (PyInt (- 36)) = Inr 60"
  "attenuation_to_volume (PyInt (- 35)) = Inr 61"
  "attenuation_to_volume (PyInt (- 34)) = Inr 62"
  "attenuation_to_volume (PyInt (- 33)) = Inr 63"
  "attenuation_to_volume (PyInt (- 32)) = Inr 64"
  "attenuation_to_volume (PyInt (- 31)) = Inr 66"
  "attenuation_to_volume (PyInt (- 30)) = Inr 67"
  "attenuation_to_volume (PyInt (- 29)) = Inr 68"
  "attenuation_to_volume (PyInt (- 28)) = Inr 69"
  "attenuation_to_volume (PyInt (- 27)) = Inr 70"
  "attenuation_to_volume (PyInt (- 26)) = Inr 71"
  "attenuation_to_volume (PyInt (- 25)) = Inr 72"
  "attenuation_to_volume (PyInt (- 24)) = Inr 73"
  "attenuation_to_volume (PyInt (- 23)) = Inr 74"
  "attenuation_to_volume (PyInt (- 22)) = Inr 76"
  by (simp_all add: float_eval split del: if_split)

lemma attenuation_to_volume_values_4:
  "attenuation_to_volume (PyInt (- 21)) = Inr 77"
  "attenuation_to_volume (PyInt (- 20)) = Inr 78"
  "attenuation_to_volume (PyInt (- 19)) = Inr 79"
  "attenuation_to_volume (PyInt (- 18)) = Inr 80"
  "attenuation_to_volume (PyInt (- 17)) = Inr 81"
  "attenuation_to_volume (PyInt (- 16)) = Inr 82"
  "attenuation_to_volume (PyInt (- 15)) = Inr 83"
  "attenuation_to_volume (PyInt (- 14)) = Inr 84"
  "attenuation_to_volume (PyInt (- 13)) = Inr 86"
  "attenuation_to_volume (PyInt (- 12)) = Inr 87"
  "attenuation_to_volume (PyInt (- 11)) = Inr 88"
  "attenuation_to_volume (PyInt (- 10)) = Inr 89"
  "attenuation_to_volume (PyInt (- 9)) = Inr 90"
  "attenuation_to_volume (PyInt (- 8)) = Inr 91"
  "attenuation_to_volume (PyInt (- 7)) = Inr 92"
  "attenuation_to_volume (PyInt (- 6)) = Inr 93"
  "attenuation_to_volume (PyInt (- 5)) = Inr 94"
  "attenuation_to_volume (PyInt (- 4)) = Inr 96"
  "attenuation_to_volume (PyInt (- 3)) = Inr 97"
  "attenuation_to_volume (PyInt (- 2)) = Inr 98"
  "attenuation_to_volume (PyInt (- 1)) = Inr 99"
  "attenuation_to_volume (PyInt 0) = Inr 100"
  by (simp_all add: float_eval split del: if_split)

lemmas conversion_values =
  volume_to_attenuation_values_1 volume_to_attenuation_values_2 volume_to_attenuation_values_3 volume_to_attenuation_values_4
  attenuation_to_volume_values_1 attenuation_to_volume_values_2 attenuation_to_volume_values_3 attenuation_to_volume_values_4

lemma volume_round_trip_all:
  "list_all (\<lambda>v. \<exists>a w. volume_to_attenuation (PyInt v) = Inr a
                     \<and> attenuation_to_volume (PyInt a) = Inr w \<and> \<bar>w - v\<bar> \<le> 1) [0..100]"
proof -
  have "[0..100] = 0 # [1..(100::int)]"
    by (simp add: upto_rec1)
  then show ?thesis
    by (simp add: upto_rec1 conversion_values)
qed

lemma attenuation_round_trip_all:
  "list_all (\<lambda>d. \<exists>w a. attenuation_to_volume (PyInt d) = Inr w
                     \<and> volume_to_attenuation (PyInt w) = Inr a \<and> \<bar>a - d\<bar> \<le> 1) [- 90..0]"
  by (simp add: upto_rec1 conversion_values)

text \<open>
  C6. For every integer \<open>v\<close> from 0 to 100, \<^verbatim>\<open>volume_to_attenuation\<close> followed by
  \<^verbatim>\<open>attenuation_to_volume\<close> returns a value within 1 of \<open>v\<close>; for every integer \<open>d\<close> from
  \<open>-90\<close> to 0, \<^verbatim>\<open>attenuation_to_volume\<close> followed by \<^verbatim>\<open>volume_to_attenuation\<close> returns a
  value within 1 of \<open>d\<close>. Neither conversion raises on these ranges.
\<close>

theorem conversion_round_trip:
  "(0 \<le> v \<and> v \<le> 100 \<longrightarrow>
      (\<exists>a w. volume_to_attenuation (PyInt v) = Inr a
             \<and> attenuation_to_volume (PyInt a) = Inr w \<and> \<bar>w - v\<bar> \<le> 1))
   \<and> (- 90 \<le> d \<and> d \<le> 0 \<longrightarrow>
      (\<exists>w a. attenuation_to_volume (PyInt d) = Inr w
             \<and> volume_to_attenuation (PyInt w) = Inr a \<and> \<bar>a - d\<bar> \<le> 1))"
  using volume_round_trip_all attenuation_round_trip_all
  by (simp add: list_all_iff)

theorem conversion_round_trip_witness:
  "(\<exists>a w. volume_to_attenuation (PyInt 35) = Inr a
          \<and> attenuation_to_volume (PyInt a) = Inr w \<and> \<bar>w - 35\<bar> \<le> 1)
   \<and> (\<exists>w a. attenuation_to_volume (PyInt (- 59)) = Inr w
          \<and> volume_to_attenuation (PyInt w) = Inr a \<and> \<bar>a - (- 59)\<bar> \<le> 1)"
  using conversion_round_trip [of 35 "- 59"] by simp

end
